theory Spec2Isabelle
  imports
    Complex_Main
    "HOL-Library.Char_ord"
    "HOL-Library.List_Lexorder"
    "HOL-Library.Product_Lexorder"
    "HOL-Library.Multiset"
    "HOL-Library.AList"
begin

section \<open>Values\<close>

text \<open>
  The client is Python 2 code (\<^verbatim>\<open>urllib.urlencode\<close>, \<^verbatim>\<open>dict.items()\<close> returning a
  list). A \<^verbatim>\<open>str\<close> is a byte string, modelled by \<^typ>\<open>string\<close>.

  The type \<open>json\<close> has the values a decoded JSON document can hold: \<^verbatim>\<open>None\<close>,
  booleans, integers, strings, lists and dictionaries. Floating-point numbers are left out.
  A dictionary is an association list: the list order stands for the iteration order of
  the dictionary, which Python 2 leaves unspecified.
\<close>

datatype json =
    JNull
  | JBool bool
  | JInt int
  | JStr string
  | JArr "json list"
  | JObj "(string \<times> json) list"

text \<open>Python's truth value of an object, as tested by \<^verbatim>\<open>if x:\<close>.\<close>

fun truthy :: "json \<Rightarrow> bool" where
  "truthy JNull = False"
| "truthy (JBool b) = b"
| "truthy (JInt i) = (i \<noteq> 0)"
| "truthy (JStr s) = (s \<noteq> [])"
| "truthy (JArr xs) = (xs \<noteq> [])"
| "truthy (JObj kvs) = (kvs \<noteq> [])"

text \<open>
  The exceptions the modelled code can raise. \<open>ClientException code msg\<close> stands for
  \<^verbatim>\<open>ClientException("{}: {}".format(code, msg))\<close>: it keeps the two formatted values.
\<close>

datatype error =
    ClientException json json
  | KeyError string
  | TypeError
  | ValueError
  | HTTPError nat
  | ConnectionError
  | AssertionError string

text \<open>\<^verbatim>\<open>k in s\<close> for two strings: \<open>k\<close> occurs in \<open>s\<close> as a substring.\<close>

fun contains_str :: "string \<Rightarrow> string \<Rightarrow> bool" where
  "contains_str k [] = (k = [])"
| "contains_str k (c # s) = (take (length k) (c # s) = k \<or> contains_str k s)"

text \<open>\<^verbatim>\<open>k in j\<close> for a string \<open>k\<close>: membership of a key, of a list element, or a substring
  test; the other values are not iterable.\<close>

fun py_in :: "string \<Rightarrow> json \<Rightarrow> error + bool" where
  "py_in k (JObj kvs) = Inr (k \<in> fst ` set kvs)"
| "py_in k (JArr xs) = Inr (JStr k \<in> set xs)"
| "py_in k (JStr s) = Inr (contains_str k s)"
| "py_in k _ = Inl TypeError"

text \<open>\<^verbatim>\<open>j[k]\<close> for a string \<open>k\<close>: only a dictionary can be indexed by a string.\<close>

fun getitem :: "json \<Rightarrow> string \<Rightarrow> error + json" where
  "getitem (JObj kvs) k = (case map_of kvs k of None \<Rightarrow> Inl (KeyError k) | Some v \<Rightarrow> Inr v)"
| "getitem _ k = Inl TypeError"

text \<open>\<^verbatim>\<open>v != 0\<close>: numeric for integers and booleans (\<^verbatim>\<open>False == 0\<close>), true for every
  other value.\<close>

fun ne_zero :: "json \<Rightarrow> bool" where
  "ne_zero (JInt i) = (i \<noteq> 0)"
| "ne_zero (JBool b) = b"
| "ne_zero _ = True"

section \<open>check\_error\<close>

text \<open>
  \<^verbatim>\<open>
  def check_error(json):
      if "errcode" in json and json["errcode"] != 0:
          raise ClientException("{}: {}".format(json["errcode"], json["errmsg"]))
      return json
  \<close>
\<close>

definition check_error :: "json \<Rightarrow> error + json" where
  "check_error j =
     (case py_in ''errcode'' j of
        Inl e \<Rightarrow> Inl e
      | Inr False \<Rightarrow> Inr j
      | Inr True \<Rightarrow>
          (case getitem j ''errcode'' of
             Inl e \<Rightarrow> Inl e
           | Inr code \<Rightarrow>
               if ne_zero code then
                 (case getitem j ''errmsg'' of
                    Inl e \<Rightarrow> Inl e
                  | Inr msg \<Rightarrow> Inl (ClientException code msg))
               else Inr j))"

section \<open>The client, the transport and the clock\<close>

text \<open>
  The attribute \<^verbatim>\<open>_token\<close> is the field \<open>priv_token\<close>. Both cache fields start as
  \<^verbatim>\<open>None\<close> and hold whatever the token response carried. A key or partner id that was
  not given to the constructor is \<^verbatim>\<open>None\<close>.
\<close>

record client =
  appid :: string
  appsecret :: string
  priv_token :: json
  token_expires_at :: json
  pay_sign_key :: "string option"
  pay_partner_id :: "string option"
  pay_partner_key :: "string option"

definition Client :: "string \<Rightarrow> string \<Rightarrow> string option \<Rightarrow> string option \<Rightarrow> string option \<Rightarrow> client" where
  "Client a s sign_key partner_id partner_key =
     \<lparr>appid = a, appsecret = s, priv_token = JNull, token_expires_at = JNull,
      pay_sign_key = sign_key, pay_partner_id = partner_id, pay_partner_key = partner_key\<rparr>"

text \<open>A request body is a dictionary or anything else (a string, a file stream).\<close>

datatype body = BDict "(string \<times> json) list" | BRaw string

text \<open>The keyword arguments of \<^verbatim>\<open>request\<close>: each may be absent.\<close>

record kwargs =
  kw_params :: "(string \<times> json) list option"
  kw_data :: "body option"
  kw_files :: "(string \<times> string) list option"

text \<open>What \<^verbatim>\<open>requests.request\<close> is called with.\<close>

record http_request =
  http_method :: string
  url :: string
  params :: "(string \<times> json) list"
  data :: "body option"
  files :: "(string \<times> string) list option"

text \<open>What the transport gives back: no response at all (\<^verbatim>\<open>requests\<close> raises), or a
  status code and the body, decoded when it is JSON.\<close>

datatype http_reply = NoReply | Reply nat "json option"

text \<open>
  The world outside the client: the requests sent so far, the number of clock readings
  taken and the number of nonces drawn.
\<close>

record world =
  sent :: "http_request list"
  ticks :: nat
  draws :: nat

text \<open>
  The collaborators the client calls: the remote side (the reply to a request, given the
  earlier requests), \<^verbatim>\<open>time.time()\<close> (the reading in seconds, by the number of
  earlier readings), \<^verbatim>\<open>werobot.utils.generate_token\<close> (by the number of earlier
  draws), the digests of \<^verbatim>\<open>hashlib\<close> (\<^verbatim>\<open>sha1(s).digest()\<close>, \<^verbatim>\<open>md5(s).digest()\<close>)
  and \<^verbatim>\<open>json.dumps\<close>.
\<close>

record env =
  http :: "http_request list \<Rightarrow> http_request \<Rightarrow> http_reply"
  clock :: "nat \<Rightarrow> real"
  generate_token :: "nat \<Rightarrow> string"
  sha1 :: "string \<Rightarrow> string"
  md5 :: "string \<Rightarrow> string"
  dumps :: "json \<Rightarrow> string"

text \<open>\<^verbatim>\<open>time.time()\<close>: one reading of the clock.\<close>

definition time_time :: "env \<Rightarrow> world \<Rightarrow> real \<times> world" where
  "time_time E w = (clock E (ticks w), w\<lparr>ticks := Suc (ticks w)\<rparr>)"

text \<open>\<^verbatim>\<open>int(x)\<close> of a float truncates towards zero.\<close>

definition py_int :: "real \<Rightarrow> int" where
  "py_int x = (if 0 \<le> x then \<lfloor>x\<rfloor> else \<lceil>x\<rceil>)"

section \<open>request\<close>

text \<open>
  \<^verbatim>\<open>
  def request(self, method, url, **kwargs):
      if "params" not in kwargs:
          kwargs["params"] = {"access_token": self.token}
      if isinstance(kwargs.get("data", ""), dict):
          kwargs["data"] = _json.dumps(kwargs["data"])
      r = requests.request(method=method, url=url, **kwargs)
      r.raise_for_status()
      json = r.json()
      if check_error(json):
          return json
  \<close>
  \<open>request_send\<close> is the part after the first \<^verbatim>\<open>if\<close>, with the query parameters
  settled. \<^verbatim>\<open>grant_token\<close> passes its own \<^verbatim>\<open>params\<close>, so it runs this part only,
  which is what keeps \<^verbatim>\<open>token\<close> and \<^verbatim>\<open>request\<close> from calling each other for ever.
\<close>

definition serialize_data :: "env \<Rightarrow> body option \<Rightarrow> body option" where
  "serialize_data E d =
     (case d of
        Some (BDict kvs) \<Rightarrow> Some (BRaw (dumps E (JObj kvs)))
      | _ \<Rightarrow> d)"

definition raise_for_status :: "nat \<Rightarrow> bool" where
  "raise_for_status st = (400 \<le> st \<and> st < 600)"

definition request_send ::
  "env \<Rightarrow> world \<Rightarrow> string \<Rightarrow> string \<Rightarrow> (string \<times> json) list \<Rightarrow> body option \<Rightarrow>
   (string \<times> string) list option \<Rightarrow> (error + json) \<times> world" where
  "request_send E w m u ps d fs =
     (let rq = \<lparr>http_method = m, url = u, params = ps, data = serialize_data E d, files = fs\<rparr>;
          w' = w\<lparr>sent := sent w @ [rq]\<rparr>
      in case http E (sent w) rq of
           NoReply \<Rightarrow> (Inl ConnectionError, w')
         | Reply st b \<Rightarrow>
             if raise_for_status st then (Inl (HTTPError st), w')
             else (case b of
                     None \<Rightarrow> (Inl ValueError, w')
                   | Some j \<Rightarrow>
                       (case check_error j of
                          Inl e \<Rightarrow> (Inl e, w')
                        | Inr j' \<Rightarrow> if truthy j' then (Inr j, w') else (Inr JNull, w'))))"

section \<open>The access token\<close>

text \<open>
  \<^verbatim>\<open>
  def grant_token(self):
      return self.get(
          url="https://api.weixin.qq.com/cgi-bin/token",
          params={"grant_type": "client_credential",
                  "appid": self.appid, "secret": self.appsecret})
  \<close>
\<close>

definition grant_token :: "env \<Rightarrow> client \<Rightarrow> world \<Rightarrow> (error + json) \<times> world" where
  "grant_token E c w =
     request_send E w ''get'' ''https://api.weixin.qq.com/cgi-bin/token''
       [(''grant_type'', JStr ''client_credential''),
        (''appid'', JStr (appid c)), (''secret'', JStr (appsecret c))]
       None None"

text \<open>The request that \<^verbatim>\<open>grant_token\<close> sends.\<close>

abbreviation token_request :: "client \<Rightarrow> http_request" where
  "token_request c \<equiv>
     \<lparr>http_method = ''get'', url = ''https://api.weixin.qq.com/cgi-bin/token'',
      params = [(''grant_type'', JStr ''client_credential''),
                (''appid'', JStr (appid c)), (''secret'', JStr (appsecret c))],
      data = None, files = None\<rparr>"

text \<open>\<^verbatim>\<open>v - now\<close> for a float \<open>now\<close>, and \<^verbatim>\<open>n + v\<close> for an integer \<open>n\<close>: defined on
  numbers (a boolean counts as 0 or 1), a \<^verbatim>\<open>TypeError\<close> on anything else.\<close>

fun sub_float :: "json \<Rightarrow> real \<Rightarrow> error + real" where
  "sub_float (JInt e) now = Inr (real_of_int e - now)"
| "sub_float (JBool b) now = Inr ((if b then 1 else 0) - now)"
| "sub_float _ now = Inl TypeError"

fun int_add :: "int \<Rightarrow> json \<Rightarrow> error + json" where
  "int_add n (JInt i) = Inr (JInt (n + i))"
| "int_add n (JBool b) = Inr (JInt (n + (if b then 1 else 0)))"
| "int_add n _ = Inl TypeError"

text \<open>
  \<^verbatim>\<open>
  @property
  def token(self):
      if self._token:
          now = time.time()
          if self.token_expires_at - now > 60:
              return self._token
      json = self.grant_token()
      self._token = json["access_token"]
      self.token_expires_at = int(time.time()) + json["expires_in"]
      return self._token
  \<close>
  \<open>refresh\<close> is the part from \<^verbatim>\<open>self.grant_token()\<close> on.
\<close>

definition refresh :: "env \<Rightarrow> client \<Rightarrow> world \<Rightarrow> (error + json) \<times> client \<times> world" where
  "refresh E c w =
     (case grant_token E c w of
        (Inl e, w1) \<Rightarrow> (Inl e, c, w1)
      | (Inr j, w1) \<Rightarrow>
          (case getitem j ''access_token'' of
             Inl e \<Rightarrow> (Inl e, c, w1)
           | Inr tok \<Rightarrow>
               (let c1 = c\<lparr>priv_token := tok\<rparr>;
                    (now, w2) = time_time E w1
                in case getitem j ''expires_in'' of
                     Inl e \<Rightarrow> (Inl e, c1, w2)
                   | Inr x \<Rightarrow>
                       (case int_add (py_int now) x of
                          Inl e \<Rightarrow> (Inl e, c1, w2)
                        | Inr t \<Rightarrow> (Inr tok, c1\<lparr>token_expires_at := t\<rparr>, w2)))))"

definition token :: "env \<Rightarrow> client \<Rightarrow> world \<Rightarrow> (error + json) \<times> client \<times> world" where
  "token E c w =
     (if truthy (priv_token c) then
        (let (now, w1) = time_time E w
         in case sub_float (token_expires_at c) now of
              Inl e \<Rightarrow> (Inl e, c, w1)
            | Inr d \<Rightarrow> if d > 60 then (Inr (priv_token c), c, w1) else refresh E c w1)
      else refresh E c w)"

definition request ::
  "env \<Rightarrow> client \<Rightarrow> world \<Rightarrow> string \<Rightarrow> string \<Rightarrow> kwargs \<Rightarrow> (error + json) \<times> client \<times> world" where
  "request E c w m u kw =
     (case kw_params kw of
        None \<Rightarrow>
          (case token E c w of
             (Inl e, c1, w1) \<Rightarrow> (Inl e, c1, w1)
           | (Inr t, c1, w1) \<Rightarrow>
               (let (r, w2) = request_send E w1 m u [(''access_token'', t)] (kw_data kw) (kw_files kw)
                in (r, c1, w2)))
      | Some ps \<Rightarrow>
          (let (r, w1) = request_send E w m u ps (kw_data kw) (kw_files kw)
           in (r, c, w1)))"

text \<open>\<^verbatim>\<open>get\<close> and \<^verbatim>\<open>post\<close> call \<^verbatim>\<open>request\<close> with their method.\<close>

definition get :: "env \<Rightarrow> client \<Rightarrow> world \<Rightarrow> string \<Rightarrow> kwargs \<Rightarrow> (error + json) \<times> client \<times> world" where
  "get E c w u kw = request E c w ''get'' u kw"

definition post :: "env \<Rightarrow> client \<Rightarrow> world \<Rightarrow> string \<Rightarrow> kwargs \<Rightarrow> (error + json) \<times> client \<times> world" where
  "post E c w u kw = request E c w ''post'' u kw"

section \<open>Signing parameters\<close>

text \<open>
  The values of a signing request are scalars: \<^verbatim>\<open>None\<close>, an integer or a string.
  \<open>py_str\<close> is \<^verbatim>\<open>str(v)\<close>, with the decimal digits of an integer.
\<close>

datatype pyval = PNone | PInt int | PStr string

type_synonym pydict = "(string \<times> pyval) list"

fun digits :: "nat \<Rightarrow> string" where
  "digits n =
     (if n < 10 then [''0123456789'' ! n]
      else digits (n div 10) @ [''0123456789'' ! (n mod 10)])"

declare digits.simps [simp del]

definition str_int :: "int \<Rightarrow> string" where
  "str_int i = (if i < 0 then CHR ''-'' # digits (nat (- i)) else digits (nat i))"

fun py_str :: "pyval \<Rightarrow> string" where
  "py_str PNone = ''None''"
| "py_str (PInt i) = str_int i"
| "py_str (PStr s) = s"

text \<open>An attribute that is \<^verbatim>\<open>None\<close> or a string, as a value; and its truth value.\<close>

fun opt_val :: "string option \<Rightarrow> pyval" where
  "opt_val None = PNone"
| "opt_val (Some s) = PStr s"

fun is_set :: "string option \<Rightarrow> bool" where
  "is_set None = False"
| "is_set (Some s) = (s \<noteq> [])"

fun json_of :: "pyval \<Rightarrow> json" where
  "json_of PNone = JNull"
| "json_of (PInt i) = JInt i"
| "json_of (PStr s) = JStr s"

text \<open>
  The order \<^verbatim>\<open>list.sort()\<close> uses on these values in Python 2: \<^verbatim>\<open>None\<close> is below
  everything, a number is below a string, integers compare by value and strings byte by
  byte. Pairs compare by their first components and then by their second ones.
\<close>

instantiation pyval :: linorder
begin

fun less_eq_pyval :: "pyval \<Rightarrow> pyval \<Rightarrow> bool" where
  "less_eq_pyval PNone v = True"
| "less_eq_pyval (PInt i) PNone = False"
| "less_eq_pyval (PInt i) (PInt j) = (i \<le> j)"
| "less_eq_pyval (PInt i) (PStr t) = True"
| "less_eq_pyval (PStr s) (PStr t) = (s \<le> t)"
| "less_eq_pyval (PStr s) v = False"

definition less_pyval :: "pyval \<Rightarrow> pyval \<Rightarrow> bool" where
  "less_pyval a b = (a \<le> b \<and> \<not> b \<le> a)"

instance
proof
  fix x y z :: pyval
  show "(x < y) = (x \<le> y \<and> \<not> y \<le> x)"
    by (simp add: less_pyval_def)
  show "x \<le> x"
    by (cases x) simp_all
  show "x \<le> y \<Longrightarrow> y \<le> z \<Longrightarrow> x \<le> z"
    by (cases x; cases y; cases z) simp_all
  show "x \<le> y \<Longrightarrow> y \<le> x \<Longrightarrow> x = y"
    by (cases x; cases y) simp_all
  show "x \<le> y \<or> y \<le> x"
    by (cases x; cases y) auto
qed

end

text \<open>\<^verbatim>\<open>sep.join(xs)\<close> and \<^verbatim>\<open>"%s=%s" % (str(p[0]), str(p[1]))\<close>.\<close>

fun join :: "string \<Rightarrow> string list \<Rightarrow> string" where
  "join sep [] = []"
| "join sep [x] = x"
| "join sep (x # y # ys) = x @ sep @ join sep (y # ys)"

definition pair_str :: "string \<times> pyval \<Rightarrow> string" where
  "pair_str p = fst p @ ''='' @ py_str (snd p)"

text \<open>\<^verbatim>\<open>d.setdefault(k, v)\<close>: a key that is there keeps its value.\<close>

definition setdefault :: "string \<Rightarrow> pyval \<Rightarrow> pydict \<Rightarrow> pydict" where
  "setdefault k v d = (if k \<in> fst ` set d then d else d @ [(k, v)])"

section \<open>Digests and URL encoding\<close>

text \<open>
  \<^verbatim>\<open>hexdigest()\<close> writes each byte of the digest as two lowercase hexadecimal digits.
  \<^verbatim>\<open>upper()\<close> and \<^verbatim>\<open>lower()\<close> change the ASCII letters only.
\<close>

definition hex_lower :: "char \<Rightarrow> string" where
  "hex_lower c =
     [''0123456789abcdef'' ! (of_char c div 16), ''0123456789abcdef'' ! (of_char c mod 16)]"

definition hex_upper :: "char \<Rightarrow> string" where
  "hex_upper c =
     [''0123456789ABCDEF'' ! (of_char c div 16), ''0123456789ABCDEF'' ! (of_char c mod 16)]"

definition hexdigest :: "string \<Rightarrow> string" where
  "hexdigest d = concat (map hex_lower d)"

definition upper_char :: "char \<Rightarrow> char" where
  "upper_char c =
     (case map_of (zip ''abcdefghijklmnopqrstuvwxyz'' ''ABCDEFGHIJKLMNOPQRSTUVWXYZ'') c of
        Some u \<Rightarrow> u
      | None \<Rightarrow> c)"

definition lower_char :: "char \<Rightarrow> char" where
  "lower_char c =
     (case map_of (zip ''ABCDEFGHIJKLMNOPQRSTUVWXYZ'' ''abcdefghijklmnopqrstuvwxyz'') c of
        Some l \<Rightarrow> l
      | None \<Rightarrow> c)"

definition upper :: "string \<Rightarrow> string" where
  "upper s = map upper_char s"

definition lower :: "string \<Rightarrow> string" where
  "lower s = map lower_char s"

text \<open>
  \<^verbatim>\<open>urllib.quote_plus\<close> keeps letters, digits and \<^verbatim>\<open>_.-\<close>, writes a space as
  \<^verbatim>\<open>+\<close> and every other byte as \<^verbatim>\<open>%XX\<close>. \<^verbatim>\<open>urllib.urlencode\<close> quotes the
  \<^verbatim>\<open>str\<close> of each key and value and joins the pairs with \<^verbatim>\<open>&\<close>.
\<close>

definition always_safe :: string where
  "always_safe = ''ABCDEFGHIJKLMNOPQRSTUVWXYZabcdefghijklmnopqrstuvwxyz0123456789_.-''"

definition quote_char :: "char \<Rightarrow> string" where
  "quote_char c =
     (if c \<in> set always_safe then [c]
      else if c = CHR '' '' then ''+''
      else CHR ''%'' # hex_upper c)"

definition quote_plus :: "string \<Rightarrow> string" where
  "quote_plus s = concat (map quote_char s)"

definition urlencode :: "pydict \<Rightarrow> string" where
  "urlencode query =
     join ''&'' (map (\<lambda>p. quote_plus (fst p) @ ''='' @ quote_plus (py_str (snd p))) query)"

section \<open>Pay signing\<close>

text \<open>
  \<^verbatim>\<open>
  def _pay_sign_dict(self, add_noncestr=True, add_timestamp=True, **kwargs):
      assert self.pay_sign_key, "PAY SIGN KEY IS EMPTY"
      kwargs.update({'appid': self.appid})
      if add_noncestr:
          kwargs.update({'noncestr': generate_token()})
      if add_timestamp:
          kwargs.update({'timestamp': int(time.time())})
      params = kwargs.items()
      _params = params + [('appkey', self.pay_sign_key)]
      _params.sort()
      sign = sha1('&'.join(["%s=%s" % (str(p[0]), str(p[1])) for p in _params])).hexdigest()
      sign_type = 'SHA1'
      return dict(params), sign, sign_type
  \<close>
  \<open>pay_sign_pairs\<close> is the list \<^verbatim>\<open>_params\<close> after the sort and \<open>pay_sign_string\<close> the
  string given to \<^verbatim>\<open>sha1\<close>.
\<close>

definition pay_sign_pairs :: "pydict \<Rightarrow> string option \<Rightarrow> pydict" where
  "pay_sign_pairs ps key = sort (ps @ [(''appkey'', opt_val key)])"

definition pay_sign_string :: "pydict \<Rightarrow> string option \<Rightarrow> string" where
  "pay_sign_string ps key = join ''&'' (map pair_str (pay_sign_pairs ps key))"

definition pay_sign_dict ::
  "env \<Rightarrow> client \<Rightarrow> world \<Rightarrow> bool \<Rightarrow> bool \<Rightarrow> pydict \<Rightarrow>
   (error + pydict \<times> string \<times> string) \<times> world" where
  "pay_sign_dict E c w add_noncestr add_timestamp kwargs =
     (if \<not> is_set (pay_sign_key c) then (Inl (AssertionError ''PAY SIGN KEY IS EMPTY''), w)
      else
        (let kw1 = AList.update ''appid'' (PStr (appid c)) kwargs;
             (kw2, w1) =
               (if add_noncestr
                then (AList.update ''noncestr'' (PStr (generate_token E (draws w))) kw1,
                      w\<lparr>draws := Suc (draws w)\<rparr>)
                else (kw1, w));
             (kw3, w2) =
               (if add_timestamp
                then (let (now, w') = time_time E w1
                      in (AList.update ''timestamp'' (PInt (py_int now)) kw2, w'))
                else (kw2, w1));
             sign = hexdigest (sha1 E (pay_sign_string kw3 (pay_sign_key c)))
         in (Inr (kw3, sign, ''SHA1''), w2)))"

text \<open>
  \<^verbatim>\<open>
  def create_js_pay_package(self, **package):
      assert self.pay_partner_id,  "PAY_PARTNER_ID IS EMPTY"
      assert self.pay_partner_key, "PAY_PARTNER_KEY IS EMPTY"
      package.update({'partner' : self.pay_partner_id})
      package.setdefault('bank_type', 'WX')
      package.setdefault('fee_type', '1')
      package.setdefault('input_charset', 'UTF-8')
      params = package.items()
      params.sort()
      sign = md5('&'.join(["%s=%s" % (str(p[0]), str(p[1]))
                 for p in params + [('key', self.pay_partner_key)]])).hexdigest().upper()
      return urlencode(params + [('sign', sign)])
  \<close>
  \<open>package_items\<close> is the dictionary before the sort, \<open>package_params\<close> the list
  \<^verbatim>\<open>params\<close> after the sort, \<open>package_pairs\<close> the list
  that is serialised, \<open>package_string\<close> the string given to \<^verbatim>\<open>md5\<close> and
  \<open>package_sign\<close> the value of \<^verbatim>\<open>sign\<close>.
\<close>

definition package_items :: "client \<Rightarrow> pydict \<Rightarrow> pydict" where
  "package_items c package =
     setdefault ''input_charset'' (PStr ''UTF-8'')
       (setdefault ''fee_type'' (PStr ''1'')
         (setdefault ''bank_type'' (PStr ''WX'')
           (AList.update ''partner'' (opt_val (pay_partner_id c)) package)))"

definition package_params :: "client \<Rightarrow> pydict \<Rightarrow> pydict" where
  "package_params c package = sort (package_items c package)"

definition package_pairs :: "client \<Rightarrow> pydict \<Rightarrow> pydict" where
  "package_pairs c package = package_params c package @ [(''key'', opt_val (pay_partner_key c))]"

definition package_string :: "client \<Rightarrow> pydict \<Rightarrow> string" where
  "package_string c package = join ''&'' (map pair_str (package_pairs c package))"

definition package_sign :: "env \<Rightarrow> client \<Rightarrow> pydict \<Rightarrow> string" where
  "package_sign E c package = upper (hexdigest (md5 E (package_string c package)))"

definition create_js_pay_package :: "env \<Rightarrow> client \<Rightarrow> pydict \<Rightarrow> error + string" where
  "create_js_pay_package E c package =
     (if \<not> is_set (pay_partner_id c) then Inl (AssertionError ''PAY_PARTNER_ID IS EMPTY'')
      else if \<not> is_set (pay_partner_key c) then Inl (AssertionError ''PAY_PARTNER_KEY IS EMPTY'')
      else Inr (urlencode (package_params c package @ [(''sign'', PStr (package_sign E c package))])))"

text \<open>
  \<^verbatim>\<open>
  def create_js_pay_params(self, **package):
      pay_param, sign, sign_type = self._pay_sign_dict(
          package=self.create_js_pay_package(**package))
      pay_param['paySign'] = sign
      pay_param['signType'] = sign_type
      for key in ('appId', 'timeStamp', 'nonceStr'):
          oldkey = key.lower()
          t = pay_param[oldkey]
          del pay_param[oldkey]
          pay_param[key] = t
      return pay_param
  \<close>
\<close>

fun rename_keys :: "string list \<Rightarrow> pydict \<Rightarrow> error + pydict" where
  "rename_keys [] d = Inr d"
| "rename_keys (key # keys) d =
     (let oldkey = lower key
      in case map_of d oldkey of
           None \<Rightarrow> Inl (KeyError oldkey)
         | Some t \<Rightarrow> rename_keys keys (AList.update key t (AList.delete oldkey d)))"

definition create_js_pay_params ::
  "env \<Rightarrow> client \<Rightarrow> world \<Rightarrow> pydict \<Rightarrow> (error + pydict) \<times> world" where
  "create_js_pay_params E c w package =
     (case create_js_pay_package E c package of
        Inl e \<Rightarrow> (Inl e, w)
      | Inr pkg \<Rightarrow>
          (case pay_sign_dict E c w True True [(''package'', PStr pkg)] of
             (Inl e, w1) \<Rightarrow> (Inl e, w1)
           | (Inr (pay_param, sign, sign_type), w1) \<Rightarrow>
               (rename_keys [''appId'', ''timeStamp'', ''nonceStr'']
                  (AList.update ''signType'' (PStr sign_type)
                    (AList.update ''paySign'' (PStr sign) pay_param)), w1)))"

text \<open>
  \<^verbatim>\<open>
  def create_native_pay_url(self, productid):
      params, sign, _ = self._pay_sign_dict(productid=productid)
      params['sign'] = sign
      NATIVE_BASE_URL = 'weixin://wxpay/bizpayurl?'
      return NATIVE_BASE_URL + urlencode(params)
  \<close>
\<close>

definition create_native_pay_url ::
  "env \<Rightarrow> client \<Rightarrow> world \<Rightarrow> pyval \<Rightarrow> (error + string) \<times> world" where
  "create_native_pay_url E c w productid =
     (case pay_sign_dict E c w True True [(''productid'', productid)] of
        (Inl e, w1) \<Rightarrow> (Inl e, w1)
      | (Inr (ps, sign, _), w1) \<Rightarrow>
          (Inr (''weixin://wxpay/bizpayurl?'' @ urlencode (AList.update ''sign'' (PStr sign) ps)), w1))"

text \<open>
  \<^verbatim>\<open>
  def pay_delivernotify(self, **deliver_info):
      params, sign, _ = self._pay_sign_dict(
          add_noncestr=False, add_timestamp=False, **deliver_info)
      params['app_signature'] = sign
      params['sign_method'] = 'sha1'
      return self.post(url="https://api.weixin.qq.com/pay/delivernotify", data=params)
  \<close>
\<close>

definition signed_body :: "pydict \<Rightarrow> string \<Rightarrow> kwargs" where
  "signed_body ps sign =
     \<lparr>kw_params = None,
      kw_data = Some (BDict (map (\<lambda>p. (fst p, json_of (snd p)))
                  (AList.update ''sign_method'' (PStr ''sha1'')
                    (AList.update ''app_signature'' (PStr sign) ps)))),
      kw_files = None\<rparr>"

definition pay_delivernotify ::
  "env \<Rightarrow> client \<Rightarrow> world \<Rightarrow> pydict \<Rightarrow> (error + json) \<times> client \<times> world" where
  "pay_delivernotify E c w deliver_info =
     (case pay_sign_dict E c w False False deliver_info of
        (Inl e, w1) \<Rightarrow> (Inl e, c, w1)
      | (Inr (ps, sign, _), w1) \<Rightarrow>
          post E c w1 ''https://api.weixin.qq.com/pay/delivernotify'' (signed_body ps sign))"

text \<open>
  \<^verbatim>\<open>
  def pay_orderquery(self, out_trade_no):
      package = {'partner' : self.pay_partner_id, 'out_trade_no' : out_trade_no}
      sign = md5('&'.join(["%s=%s" % (str(p[0]), str(p[1]))
                 for p in package.items() + [('key', self.pay_partner_key)]])).hexdigest().upper()
      package['sign'] = sign
      package = '&'.join(["%s=%s" %(p[0], p[1]) for p in package.items()])
      params, sign, _ = self._pay_sign_dict(add_noncestr=False, package=package)
      params['app_signature'] = sign
      params['sign_method'] = 'sha1'
      return self.post(url="https://api.weixin.qq.com/pay/orderquery", data=params)
  \<close>
  \<open>orderquery_string\<close> is the string given to \<^verbatim>\<open>md5\<close>.
\<close>

definition orderquery_string :: "client \<Rightarrow> pyval \<Rightarrow> string" where
  "orderquery_string c out_trade_no =
     join ''&'' (map pair_str
       ([(''partner'', opt_val (pay_partner_id c)), (''out_trade_no'', out_trade_no)]
        @ [(''key'', opt_val (pay_partner_key c))]))"

definition orderquery_package :: "env \<Rightarrow> client \<Rightarrow> pyval \<Rightarrow> string" where
  "orderquery_package E c out_trade_no =
     (let package = [(''partner'', opt_val (pay_partner_id c)), (''out_trade_no'', out_trade_no)];
          sign = upper (hexdigest (md5 E (orderquery_string c out_trade_no)))
      in join ''&'' (map pair_str (AList.update ''sign'' (PStr sign) package)))"

definition pay_orderquery ::
  "env \<Rightarrow> client \<Rightarrow> world \<Rightarrow> pyval \<Rightarrow> (error + json) \<times> client \<times> world" where
  "pay_orderquery E c w out_trade_no =
     (case pay_sign_dict E c w False True
             [(''package'', PStr (orderquery_package E c out_trade_no))] of
        (Inl e, w1) \<Rightarrow> (Inl e, c, w1)
      | (Inr (ps, sign, _), w1) \<Rightarrow>
          post E c w1 ''https://api.weixin.qq.com/pay/orderquery'' (signed_body ps sign))"

section \<open>Reading a query string\<close>

text \<open>
  The pairs a URL-encoded string holds are read back the way a receiver reads them: the
  string is split at every \<^verbatim>\<open>&\<close> (\<^verbatim>\<open>s.split("&")\<close>) and the key of a piece is what
  stands before its first \<^verbatim>\<open>=\<close>. This is only used to say which keys a returned string
  contains.
\<close>

fun split_on :: "char \<Rightarrow> string \<Rightarrow> string list" where
  "split_on c [] = [[]]"
| "split_on c (x # xs) =
     (if x = c then [] # split_on c xs
      else (case split_on c xs of [] \<Rightarrow> [[x]] | y # ys \<Rightarrow> (x # y) # ys))"

definition query_keys :: "string \<Rightarrow> string list" where
  "query_keys q = map (takeWhile (\<lambda>x. x \<noteq> CHR ''='')) (split_on (CHR ''&'') q)"

section \<open>Concrete inputs\<close>

text \<open>
  A remote side that answers every request with a token response, a clock that reads
  1000.5 seconds, the nonce \<^verbatim>\<open>abc\<close> and toy digests; a client with every key set; a
  world in which nothing has happened yet. The concrete evaluations below use them.
\<close>

abbreviation env0 :: env where
  "env0 \<equiv>
     \<lparr>http = (\<lambda>h r. Reply 200 (Some (JObj [(''access_token'', JStr ''T1''), (''expires_in'', JInt 7200)]))),
      clock = (\<lambda>n. 1000.5), generate_token = (\<lambda>n. ''abc''),
      sha1 = (\<lambda>s. take 2 s), md5 = (\<lambda>s. take 2 s), dumps = (\<lambda>j. ''{}'')\<rparr>"

abbreviation client0 :: client where
  "client0 \<equiv> Client ''wx1'' ''s3cr3t'' (Some ''secret'') (Some ''p'') (Some ''k'')"

abbreviation world0 :: world where
  "world0 \<equiv> \<lparr>sent = [], ticks = 0, draws = 0\<rparr>"

section \<open>Facts about the helpers\<close>

lemma hex_lower_chars: "set (hex_lower c) \<subseteq> set ''0123456789abcdef''"
proof -
  have d: "(of_char c :: nat) div 16 < 16"
    using nat_of_char_less_256 [of c] by arith
  have m: "(of_char c :: nat) mod 16 < 16"
    by simp
  have l: "length ''0123456789abcdef'' = 16"
    by simp
  from d l have "''0123456789abcdef'' ! (of_char c div 16) \<in> set ''0123456789abcdef''"
    using nth_mem by metis
  moreover from m l have "''0123456789abcdef'' ! (of_char c mod 16) \<in> set ''0123456789abcdef''"
    using nth_mem by metis
  ultimately show ?thesis
    unfolding hex_lower_def by simp
qed

lemma hexdigest_chars: "set (hexdigest d) \<subseteq> set ''0123456789abcdef''"
  unfolding hexdigest_def using hex_lower_chars by (induction d) auto

section \<open>Error check of a decoded response\<close>

lemma check_error_raises:
  assumes "map_of kvs ''errcode'' = Some code" and "ne_zero code"
    and "map_of kvs ''errmsg'' = Some msg"
  shows "check_error (JObj kvs) = Inl (ClientException code msg)"
proof -
  from assms(1) have "''errcode'' \<in> fst ` set kvs"
    by (metis map_of_eq_None_iff option.distinct(1))
  with assms show ?thesis
    by (simp add: check_error_def)
qed

lemma check_error_no_errmsg:
  assumes "map_of kvs ''errcode'' = Some code" and "ne_zero code"
    and "map_of kvs ''errmsg'' = None"
  shows "check_error (JObj kvs) = Inl (KeyError ''errmsg'')"
proof -
  from assms(1) have "''errcode'' \<in> fst ` set kvs"
    by (metis map_of_eq_None_iff option.distinct(1))
  with assms show ?thesis
    by (simp add: check_error_def)
qed

lemma check_error_passes:
  assumes "map_of kvs ''errcode'' = None \<or> map_of kvs ''errcode'' = Some (JInt 0)"
  shows "check_error (JObj kvs) = Inr (JObj kvs)"
proof (cases "''errcode'' \<in> fst ` set kvs")
  case True
  with assms have "map_of kvs ''errcode'' = Some (JInt 0)"
    by (metis map_of_eq_None_iff)
  with True show ?thesis
    by (simp add: check_error_def)
next
  case False
  then show ?thesis
    by (simp add: check_error_def)
qed

lemma request_send_passes:
  assumes "http E (sent w) \<lparr>http_method = m, url = u, params = ps, data = serialize_data E d, files = fs\<rparr>
             = Reply st (Some (JObj kvs))"
    and "\<not> raise_for_status st" and "kvs \<noteq> []"
    and "map_of kvs ''errcode'' = None \<or> map_of kvs ''errcode'' = Some (JInt 0)"
  shows "fst (request_send E w m u ps d fs) = Inr (JObj kvs)"
  using assms(1,2,3) check_error_passes [OF assms(4)]
  by (simp add: request_send_def Let_def)

text \<open>
  C2: every decoded response with a non-zero \<^verbatim>\<open>errcode\<close> makes \<^verbatim>\<open>request\<close> fail with the
  code and the message, and a response whose \<^verbatim>\<open>errcode\<close> is 0 or absent is returned
  unchanged. The empty object \<^verbatim>\<open>{}\<close> has no \<^verbatim>\<open>errcode\<close> and passes
  \<^verbatim>\<open>check_error\<close>, yet \<^verbatim>\<open>request\<close> returns \<^verbatim>\<open>None\<close> for it and not the object:
  \<^verbatim>\<open>check_error\<close> hands the object back where its docstring promises \<^verbatim>\<open>True\<close>, and
  \<^verbatim>\<open>request\<close> tests that result for truth.
\<close>

theorem request_empty_object:
  "fst (request \<lparr>http = (\<lambda>h r. Reply 200 (Some (JObj []))), clock = ck, generate_token = g,
                sha1 = h1, md5 = h5, dumps = dj\<rparr>
          c w m u \<lparr>kw_params = Some ps, kw_data = d, kw_files = fs\<rparr>) = Inr JNull
   \<and> check_error (JObj []) = Inr (JObj [])"
  by (simp add: request_def request_send_def check_error_def raise_for_status_def Let_def)

section \<open>The SHA1 signature\<close>

text \<open>
  C3: for the parameters \<^verbatim>\<open>{appid: "wx1", productid: "123", noncestr: "abc",
  timestamp: 1000}\<close> and the key \<^verbatim>\<open>"secret"\<close>, the string that is hashed is exactly
  \<^verbatim>\<open>appid=wx1&appkey=secret&noncestr=abc&productid=123&timestamp=1000\<close>, and the
  signature is the lowercase hexadecimal SHA1 digest of it. The client has the appid
  \<^verbatim>\<open>wx1\<close>, the caller passes \<^verbatim>\<open>productid\<close>, the nonce drawn is \<^verbatim>\<open>abc\<close> and the
  clock reads 1000; the digest function is arbitrary.
\<close>

theorem pay_sign_dict_reference_vector:
  "pay_sign_dict
     \<lparr>http = h, clock = (\<lambda>n. 1000), generate_token = (\<lambda>n. ''abc''), sha1 = H, md5 = M, dumps = D\<rparr>
     (Client ''wx1'' s (Some ''secret'') pid pk) w True True [(''productid'', PStr ''123'')]
   = (Inr ([(''productid'', PStr ''123''), (''appid'', PStr ''wx1''),
            (''noncestr'', PStr ''abc''), (''timestamp'', PInt 1000)],
           hexdigest (H ''appid=wx1&appkey=secret&noncestr=abc&productid=123&timestamp=1000''),
           ''SHA1''),
      w\<lparr>draws := Suc (draws w), ticks := Suc (ticks w)\<rparr>)
   \<and> pay_sign_string [(''appid'', PStr ''wx1''), (''productid'', PStr ''123''),
                      (''noncestr'', PStr ''abc''), (''timestamp'', PInt 1000)] (Some ''secret'')
     = ''appid=wx1&appkey=secret&noncestr=abc&productid=123&timestamp=1000''
   \<and> set (hexdigest (H ''appid=wx1&appkey=secret&noncestr=abc&productid=123&timestamp=1000''))
       \<subseteq> set ''0123456789abcdef''"
proof (intro conjI)
  show "set (hexdigest (H ''appid=wx1&appkey=secret&noncestr=abc&productid=123&timestamp=1000''))
          \<subseteq> set ''0123456789abcdef''"
    by (rule hexdigest_chars)
qed (simp_all add: pay_sign_dict_def Client_def time_time_def py_int_def pay_sign_string_def
      pay_sign_pairs_def pair_str_def str_int_def digits.simps)

section \<open>Order of the pairs that are signed\<close>

lemma sorted_pairs_fst:
  fixes xs :: "('a::linorder \<times> 'b::linorder) list"
  shows "sorted xs \<Longrightarrow> sorted (map fst xs)"
proof (induction xs)
  case Nil
  then show ?case by simp
next
  case (Cons p ps)
  then have "\<forall>q\<in>set ps. fst p \<le> fst q"
    by (auto simp: less_eq_prod_def)
  with Cons show ?case by simp
qed

lemma partner_in_package_items: "''partner'' \<in> fst ` set (package_items c package)"
proof -
  have "''partner'' \<in> fst ` set (AList.update ''partner'' (opt_val (pay_partner_id c)) package)"
    by (simp add: AList.dom_update)
  then show ?thesis
    by (auto simp: package_items_def setdefault_def)
qed

lemma package_pairs_unsorted: "\<not> sorted (map fst (package_pairs c package))"
proof
  assume "sorted (map fst (package_pairs c package))"
  then have "\<forall>k\<in>set (map fst (package_params c package)). k \<le> ''key''"
    by (simp add: package_pairs_def sorted_append)
  moreover have "''partner'' \<in> set (map fst (package_params c package))"
    using partner_in_package_items [of c package] by (simp add: package_params_def)
  ultimately have "''partner'' \<le> ''key''" by blast
  then show False by simp
qed

text \<open>
  C4, as stated: in both schemes the secret pair is appended and then sorted together with
  the other pairs, so that it stands at its sorted position in the canonical string. The
  MD5 scheme does not do that: for a client with the partner id \<^verbatim>\<open>p\<close>, the partner key
  \<^verbatim>\<open>k\<close> and an empty package, the pair \<^verbatim>\<open>key=k\<close> comes last, after
  \<^verbatim>\<open>partner=p\<close>, and the list that is serialised is not the sorted one.
\<close>

theorem package_key_last_counterexample:
  "package_pairs (Client ''wx1'' ''s'' None (Some ''p'') (Some ''k'')) []
     = [(''bank_type'', PStr ''WX''), (''fee_type'', PStr ''1''),
        (''input_charset'', PStr ''UTF-8''), (''partner'', PStr ''p''), (''key'', PStr ''k'')]
   \<and> package_string (Client ''wx1'' ''s'' None (Some ''p'') (Some ''k'')) []
     = ''bank_type=WX&fee_type=1&input_charset=UTF-8&partner=p&key=k''
   \<and> \<not> sorted (map fst (package_pairs (Client ''wx1'' ''s'' None (Some ''p'') (Some ''k'')) []))
   \<and> package_pairs (Client ''wx1'' ''s'' None (Some ''p'') (Some ''k'')) []
     \<noteq> sort (package_items (Client ''wx1'' ''s'' None (Some ''p'') (Some ''k'')) []
             @ [(''key'', PStr ''k'')])"
  by (simp add: package_pairs_def package_string_def package_params_def package_items_def
      setdefault_def Client_def pair_str_def)

text \<open>
  C4, amended: in the SHA1 scheme the pair \<^verbatim>\<open>(appkey, secret)\<close> is appended and all
  pairs are then sorted together, so the list that is serialised is sorted and holds the
  parameter pairs and the secret pair. In the MD5 scheme the parameter pairs are sorted
  among themselves and the pair \<^verbatim>\<open>(key, secret)\<close> is appended after the sort: it is
  always the last pair of the canonical string, which is never sorted by key name, since
  \<^verbatim>\<open>partner\<close> is always among the parameters.
\<close>

theorem signing_pair_order:
  "sorted (pay_sign_pairs ps key)
   \<and> sorted (map fst (pay_sign_pairs ps key))
   \<and> mset (pay_sign_pairs ps key) = mset ps + {#(''appkey'', opt_val key)#}
   \<and> pay_sign_string ps key = join ''&'' (map pair_str (pay_sign_pairs ps key))
   \<and> (pay_sign_dict E c w add_noncestr add_timestamp kwargs = (Inr (ps, sg, ty), w')
        \<longrightarrow> sg = hexdigest (sha1 E (pay_sign_string ps (pay_sign_key c))))
   \<and> sorted (butlast (package_pairs c package))
   \<and> mset (butlast (package_pairs c package)) = mset (package_items c package)
   \<and> last (package_pairs c package) = (''key'', opt_val (pay_partner_key c))
   \<and> \<not> sorted (map fst (package_pairs c package))
   \<and> package_string c package = join ''&'' (map pair_str (package_pairs c package))
   \<and> package_sign E c package = upper (hexdigest (md5 E (package_string c package)))
   \<and> (create_js_pay_package E c package = Inr s
        \<longrightarrow> s = urlencode (butlast (package_pairs c package)
                           @ [(''sign'', PStr (package_sign E c package))]))"
proof (intro conjI)
  show "sorted (map fst (pay_sign_pairs ps key))"
    by (simp add: pay_sign_pairs_def sorted_pairs_fst)
  show "\<not> sorted (map fst (package_pairs c package))"
    by (rule package_pairs_unsorted)
  show "pay_sign_dict E c w add_noncestr add_timestamp kwargs = (Inr (ps, sg, ty), w')
        \<longrightarrow> sg = hexdigest (sha1 E (pay_sign_string ps (pay_sign_key c)))"
    by (auto simp: pay_sign_dict_def Let_def split: if_splits prod.splits)
  show "create_js_pay_package E c package = Inr s
        \<longrightarrow> s = urlencode (butlast (package_pairs c package)
                           @ [(''sign'', PStr (package_sign E c package))])"
    by (auto simp: create_js_pay_package_def package_pairs_def split: if_splits)
qed (simp_all add: pay_sign_pairs_def pay_sign_string_def package_pairs_def package_params_def
      package_string_def package_sign_def)

theorem signing_pair_order_witness:
  "pay_sign_dict env0 client0 world0 True True [(''productid'', PStr ''123'')]
     = (Inr ([(''productid'', PStr ''123''), (''appid'', PStr ''wx1''),
              (''noncestr'', PStr ''abc''), (''timestamp'', PInt 1000)], ''6170'', ''SHA1''),
        \<lparr>sent = [], ticks = 1, draws = 1\<rparr>)
   \<and> ''6170'' = hexdigest (sha1 env0 (pay_sign_string
                   [(''productid'', PStr ''123''), (''appid'', PStr ''wx1''),
                    (''noncestr'', PStr ''abc''), (''timestamp'', PInt 1000)]
                   (pay_sign_key client0)))
   \<and> create_js_pay_package env0 client0 []
     = Inr ''bank_type=WX&fee_type=1&input_charset=UTF-8&partner=p&sign=6261''
   \<and> ''bank_type=WX&fee_type=1&input_charset=UTF-8&partner=p&sign=6261''
     = urlencode (butlast (package_pairs client0 [])
                  @ [(''sign'', PStr (package_sign env0 client0 []))])
   \<and> last (package_pairs client0 []) = (''key'', opt_val (pay_partner_key client0))"
proof -
  have a: "pay_sign_dict env0 client0 world0 True True [(''productid'', PStr ''123'')]
     = (Inr ([(''productid'', PStr ''123''), (''appid'', PStr ''wx1''),
              (''noncestr'', PStr ''abc''), (''timestamp'', PInt 1000)], ''6170'', ''SHA1''),
        \<lparr>sent = [], ticks = 1, draws = 1\<rparr>)"
    by (simp add: pay_sign_dict_def Client_def time_time_def py_int_def pay_sign_string_def
        pay_sign_pairs_def pair_str_def str_int_def digits.simps hexdigest_def hex_lower_def)
  have b: "create_js_pay_package env0 client0 []
     = Inr ''bank_type=WX&fee_type=1&input_charset=UTF-8&partner=p&sign=6261''"
    by (simp add: create_js_pay_package_def Client_def package_params_def package_items_def
        setdefault_def package_sign_def package_string_def package_pairs_def pair_str_def
        hexdigest_def hex_lower_def upper_def upper_char_def
        urlencode_def quote_plus_def quote_char_def always_safe_def)
  from a b show ?thesis
    using signing_pair_order
      [where ps = "[(''productid'', PStr ''123''), (''appid'', PStr ''wx1''),
                    (''noncestr'', PStr ''abc''), (''timestamp'', PInt 1000)]"
         and E = env0 and c = client0 and w = world0 and add_noncestr = True
         and add_timestamp = True and kwargs = "[(''productid'', PStr ''123'')]"
         and sg = "''6170''" and ty = "''SHA1''" and w' = "\<lparr>sent = [], ticks = 1, draws = 1\<rparr>"
         and package = "[]"
         and s = "''bank_type=WX&fee_type=1&input_charset=UTF-8&partner=p&sign=6261''"]
    by blast
qed

section \<open>Letter case of the signatures\<close>

lemma upper_hex_char_all:
  "\<forall>x\<in>set ''0123456789abcdef''.
     upper_char x \<in> set ''0123456789ABCDEF'' \<and> lower_char (upper_char x) = x"
  by (simp add: upper_char_def lower_char_def)

lemma upper_hex_char:
  assumes "x \<in> set ''0123456789abcdef''"
  shows "upper_char x \<in> set ''0123456789ABCDEF''" and "lower_char (upper_char x) = x"
  using assms upper_hex_char_all by blast+

lemma upper_hexdigest_chars: "set (upper (hexdigest d)) \<subseteq> set ''0123456789ABCDEF''"
proof
  fix y assume "y \<in> set (upper (hexdigest d))"
  then obtain x where "x \<in> set (hexdigest d)" and "y = upper_char x"
    by (auto simp: upper_def)
  with hexdigest_chars [of d] show "y \<in> set ''0123456789ABCDEF''"
    using upper_hex_char(1) by blast
qed

lemma lower_upper_hexdigest: "lower (upper (hexdigest d)) = hexdigest d"
proof -
  have "\<forall>x\<in>set (hexdigest d). lower_char (upper_char x) = x"
    using hexdigest_chars [of d] upper_hex_char(2) by blast
  then show ?thesis
    by (simp add: lower_def upper_def map_idI)
qed

text \<open>
  C6: for every input mapping and key, the SHA1 signature is the lowercase hexadecimal
  digest of the canonical string, and the MD5 signature is the uppercase hexadecimal digest
  of its canonical string; each differs from the raw \<^verbatim>\<open>hexdigest()\<close> in letter case
  only (lowering the MD5 signature gives the raw digest back, and it has the same length).
\<close>

theorem signature_case_convention:
  "(pay_sign_dict E c w add_noncestr add_timestamp kwargs = (Inr (ps, sg, ty), w')
      \<longrightarrow> sg = hexdigest (sha1 E (pay_sign_string ps (pay_sign_key c)))
          \<and> set sg \<subseteq> set ''0123456789abcdef'')
   \<and> package_sign E c package = upper (hexdigest (md5 E (package_string c package)))
   \<and> set (package_sign E c package) \<subseteq> set ''0123456789ABCDEF''
   \<and> lower (package_sign E c package) = hexdigest (md5 E (package_string c package))
   \<and> length (package_sign E c package) = length (hexdigest (md5 E (package_string c package)))
   \<and> (create_js_pay_package E c package = Inr s
        \<longrightarrow> s = urlencode (package_params c package
                           @ [(''sign'', PStr (package_sign E c package))]))"
proof (intro conjI impI)
  assume "pay_sign_dict E c w add_noncestr add_timestamp kwargs = (Inr (ps, sg, ty), w')"
  then show sg: "sg = hexdigest (sha1 E (pay_sign_string ps (pay_sign_key c)))"
    by (auto simp: pay_sign_dict_def Let_def split: if_splits prod.splits)
  show "set sg \<subseteq> set ''0123456789abcdef''"
    unfolding sg by (rule hexdigest_chars)
next
  show "set (package_sign E c package) \<subseteq> set ''0123456789ABCDEF''"
    unfolding package_sign_def by (rule upper_hexdigest_chars)
  show "lower (package_sign E c package) = hexdigest (md5 E (package_string c package))"
    unfolding package_sign_def by (rule lower_upper_hexdigest)
  show "length (package_sign E c package) = length (hexdigest (md5 E (package_string c package)))"
    by (simp add: package_sign_def upper_def)
  show "package_sign E c package = upper (hexdigest (md5 E (package_string c package)))"
    by (simp add: package_sign_def)
next
  assume "create_js_pay_package E c package = Inr s"
  then show "s = urlencode (package_params c package @ [(''sign'', PStr (package_sign E c package))])"
    by (auto simp: create_js_pay_package_def split: if_splits)
qed


theorem signature_case_convention_witness:
  "pay_sign_dict env0 client0 world0 False False [(''a'', PInt 1)]
     = (Inr ([(''a'', PInt 1), (''appid'', PStr ''wx1'')], ''613d'', ''SHA1''), world0)
   \<and> ''613d'' = hexdigest (sha1 env0 (pay_sign_string [(''a'', PInt 1), (''appid'', PStr ''wx1'')]
                   (pay_sign_key client0)))
   \<and> set ''613d'' \<subseteq> set ''0123456789abcdef''
   \<and> create_js_pay_package env0 client0 [(''k'', PStr ''v'')]
     = Inr ''bank_type=WX&fee_type=1&input_charset=UTF-8&k=v&partner=p&sign=6261''
   \<and> ''bank_type=WX&fee_type=1&input_charset=UTF-8&k=v&partner=p&sign=6261''
     = urlencode (package_params client0 [(''k'', PStr ''v'')]
                  @ [(''sign'', PStr (package_sign env0 client0 [(''k'', PStr ''v'')]))])
   \<and> package_sign (env0\<lparr>md5 := (\<lambda>s. ''J\<newline>'')\<rparr>) client0 [] = ''4A0A''
   \<and> lower ''4A0A'' = hexdigest ''J\<newline>''"
proof -
  have a: "pay_sign_dict env0 client0 world0 False False [(''a'', PInt 1)]
     = (Inr ([(''a'', PInt 1), (''appid'', PStr ''wx1'')], ''613d'', ''SHA1''), world0)"
    by (simp add: pay_sign_dict_def Client_def time_time_def py_int_def pay_sign_string_def
        pay_sign_pairs_def pair_str_def str_int_def digits.simps hexdigest_def hex_lower_def)
  have b: "create_js_pay_package env0 client0 [(''k'', PStr ''v'')]
     = Inr ''bank_type=WX&fee_type=1&input_charset=UTF-8&k=v&partner=p&sign=6261''"
    by (simp add: create_js_pay_package_def Client_def package_params_def package_items_def
        setdefault_def package_sign_def package_string_def package_pairs_def pair_str_def
        hexdigest_def hex_lower_def upper_def upper_char_def
        urlencode_def quote_plus_def quote_char_def always_safe_def)
  have c: "package_sign (env0\<lparr>md5 := (\<lambda>s. ''J\<newline>'')\<rparr>) client0 [] = ''4A0A''"
    by (simp add: package_sign_def hexdigest_def hex_lower_def upper_def upper_char_def)
  have d: "lower ''4A0A'' = hexdigest ''J\<newline>''"
    by (simp add: lower_def lower_char_def hexdigest_def hex_lower_def)
  from a b c d show ?thesis
    using signature_case_convention
      [where E = env0 and c = client0 and w = world0 and add_noncestr = False
         and add_timestamp = False and kwargs = "[(''a'', PInt 1)]"
         and ps = "[(''a'', PInt 1), (''appid'', PStr ''wx1'')]"
         and sg = "''613d''" and ty = "''SHA1''" and w' = world0
         and package = "[(''k'', PStr ''v'')]"
         and s = "''bank_type=WX&fee_type=1&input_charset=UTF-8&k=v&partner=p&sign=6261''"]
    by blast
qed

section \<open>The signature does not depend on the order of the mapping\<close>

lemma same_pairs_mset:
  assumes "distinct (map fst xs)" and "distinct (map fst ys)" and "set xs = set ys"
  shows "mset xs = mset ys"
proof -
  from assms(1,2) have "distinct xs" and "distinct ys"
    by (auto simp: distinct_map)
  with assms(3) show ?thesis
    by (simp add: set_eq_iff_mset_eq_distinct)
qed

lemma sort_mset_cong:
  fixes xs ys :: "'a::linorder list"
  assumes "mset xs = mset ys"
  shows "sort xs = sort ys"
proof (rule properties_for_sort)
  show "mset (sort ys) = mset xs" using assms by simp
  show "sorted (sort ys)" by simp
qed

lemma update_same_pairs:
  assumes "distinct (map fst xs)" and "distinct (map fst ys)" and "set xs = set ys"
  shows "set (AList.update k v xs) = set (AList.update k v ys)"
    and "distinct (map fst (AList.update k v xs))"
    and "distinct (map fst (AList.update k v ys))"
proof -
  show d1: "distinct (map fst (AList.update k v xs))"
    using assms(1) by (rule AList.distinct_update)
  show d2: "distinct (map fst (AList.update k v ys))"
    using assms(2) by (rule AList.distinct_update)
  from assms have "map_of xs = map_of ys"
    by (simp add: map_of_inject_set)
  then have "map_of (AList.update k v xs) = map_of (AList.update k v ys)"
    by (simp add: AList.update_conv')
  with d1 d2 show "set (AList.update k v xs) = set (AList.update k v ys)"
    by (simp add: map_of_inject_set)
qed

lemma setdefault_same_pairs:
  assumes "distinct (map fst xs)" and "distinct (map fst ys)" and "set xs = set ys"
  shows "set (setdefault k v xs) = set (setdefault k v ys)"
    and "distinct (map fst (setdefault k v xs))"
    and "distinct (map fst (setdefault k v ys))"
  using assms by (auto simp: setdefault_def)

lemma pay_sign_string_same_pairs:
  assumes "distinct (map fst xs)" and "distinct (map fst ys)" and "set xs = set ys"
  shows "pay_sign_string xs key = pay_sign_string ys key"
proof -
  have "mset xs = mset ys"
    using assms by (rule same_pairs_mset)
  then have "mset (xs @ [(''appkey'', opt_val key)]) = mset (ys @ [(''appkey'', opt_val key)])"
    by simp
  then have "sort (xs @ [(''appkey'', opt_val key)]) = sort (ys @ [(''appkey'', opt_val key)])"
    by (rule sort_mset_cong)
  then show ?thesis
    by (simp add: pay_sign_string_def pay_sign_pairs_def)
qed

lemma package_params_same_pairs:
  assumes "distinct (map fst xs)" and "distinct (map fst ys)" and "set xs = set ys"
  shows "package_params c xs = package_params c ys"
proof -
  note u = update_same_pairs [OF assms, of "''partner''" "opt_val (pay_partner_id c)"]
  note s1 = setdefault_same_pairs [OF u(2) u(3) u(1), of "''bank_type''" "PStr ''WX''"]
  note s2 = setdefault_same_pairs [OF s1(2) s1(3) s1(1), of "''fee_type''" "PStr ''1''"]
  note s3 = setdefault_same_pairs [OF s2(2) s2(3) s2(1), of "''input_charset''" "PStr ''UTF-8''"]
  have "mset (package_items c xs) = mset (package_items c ys)"
    unfolding package_items_def by (rule same_pairs_mset [OF s3(2) s3(3) s3(1)])
  then show ?thesis
    unfolding package_params_def by (rule sort_mset_cong)
qed

lemma pay_sign_dict_unset:
  "\<not> is_set (pay_sign_key c) \<Longrightarrow>
   pay_sign_dict E c w add_n add_t kw = (Inl (AssertionError ''PAY SIGN KEY IS EMPTY''), w)"
  by (simp add: pay_sign_dict_def)

lemma pay_sign_dict_set:
  assumes "is_set (pay_sign_key c)"
  shows "pay_sign_dict E c w add_n add_t kw =
    (let ps = (if add_t then AList.update ''timestamp'' (PInt (py_int (clock E (ticks w)))) else id)
                ((if add_n then AList.update ''noncestr'' (PStr (generate_token E (draws w))) else id)
                  (AList.update ''appid'' (PStr (appid c)) kw))
     in (Inr (ps, hexdigest (sha1 E (pay_sign_string ps (pay_sign_key c))), ''SHA1''),
         w\<lparr>draws := (if add_n then Suc (draws w) else draws w),
           ticks := (if add_t then Suc (ticks w) else ticks w)\<rparr>))"
  using assms by (cases add_n; cases add_t) (simp_all add: pay_sign_dict_def time_time_def Let_def)

lemma signed_same_pairs:
  assumes "distinct (map fst xs)" and "distinct (map fst ys)" and "set xs = set ys"
  shows "set ((if add_t then AList.update kc vc else id) ((if add_n then AList.update kb vb else id)
              (AList.update ka va xs)))
       = set ((if add_t then AList.update kc vc else id) ((if add_n then AList.update kb vb else id)
              (AList.update ka va ys)))"
    and "distinct (map fst ((if add_t then AList.update kc vc else id)
            ((if add_n then AList.update kb vb else id) (AList.update ka va xs))))"
    and "distinct (map fst ((if add_t then AList.update kc vc else id)
            ((if add_n then AList.update kb vb else id) (AList.update ka va ys))))"
proof -
  note a = update_same_pairs [OF assms, of ka va]
  note b = update_same_pairs [OF a(2) a(3) a(1), of kb vb]
  note c = update_same_pairs [OF b(2) b(3) b(1), of kc vc]
  note d = update_same_pairs [OF a(2) a(3) a(1), of kc vc]
  show "set ((if add_t then AList.update kc vc else id) ((if add_n then AList.update kb vb else id)
              (AList.update ka va xs)))
       = set ((if add_t then AList.update kc vc else id) ((if add_n then AList.update kb vb else id)
              (AList.update ka va ys)))"
    using a(1) b(1) c(1) d(1) by (cases add_n; cases add_t) simp_all
  show "distinct (map fst ((if add_t then AList.update kc vc else id)
            ((if add_n then AList.update kb vb else id) (AList.update ka va xs))))"
    using a(2) b(2) c(2) d(2) by (cases add_n; cases add_t) simp_all
  show "distinct (map fst ((if add_t then AList.update kc vc else id)
            ((if add_n then AList.update kb vb else id) (AList.update ka va ys))))"
    using a(3) b(3) c(3) d(3) by (cases add_n; cases add_t) simp_all
qed

text \<open>
  C7: two input mappings with the same key-value pairs, listed in any order, and the same
  secret key give the same signature. For the SHA1 primitive the whole result agrees (the
  signature, the outcome and the returned pairs as a set); for the MD5 package the
  canonical string, the signature and the returned string agree. A mapping is a list of
  pairs with distinct keys.
\<close>

theorem signing_order_independent:
  assumes "distinct (map fst kwa)" and "distinct (map fst kwb)" and "set kwa = set kwb"
  shows "(pay_sign_dict E c w add_n add_t kwa = (Inr (psa, sg, ty), w')
            \<longrightarrow> (\<exists>psb. pay_sign_dict E c w add_n add_t kwb = (Inr (psb, sg, ty), w')
                       \<and> set psb = set psa))
       \<and> (pay_sign_dict E c w add_n add_t kwa = (Inl e, w')
            \<longrightarrow> pay_sign_dict E c w add_n add_t kwb = (Inl e, w'))
       \<and> package_string c kwa = package_string c kwb
       \<and> package_sign E c kwa = package_sign E c kwb
       \<and> create_js_pay_package E c kwa = create_js_pay_package E c kwb"
proof -
  have pp: "package_params c kwa = package_params c kwb"
    using assms by (rule package_params_same_pairs)
  then have ps: "package_string c kwa = package_string c kwb"
    by (simp add: package_string_def package_pairs_def)
  then have pg: "package_sign E c kwa = package_sign E c kwb"
    by (simp add: package_sign_def)
  from pp pg have cp: "create_js_pay_package E c kwa = create_js_pay_package E c kwb"
    by (simp add: create_js_pay_package_def)
  have sd: "(pay_sign_dict E c w add_n add_t kwa = (Inr (psa, sg, ty), w')
            \<longrightarrow> (\<exists>psb. pay_sign_dict E c w add_n add_t kwb = (Inr (psb, sg, ty), w')
                       \<and> set psb = set psa))
       \<and> (pay_sign_dict E c w add_n add_t kwa = (Inl e, w')
            \<longrightarrow> pay_sign_dict E c w add_n add_t kwb = (Inl e, w'))"
  proof (cases "is_set (pay_sign_key c)")
    case False
    then show ?thesis
      by (simp add: pay_sign_dict_unset)
  next
    case True
    note s = signed_same_pairs [OF assms, where add_t = add_t and add_n = add_n
        and ka = "''appid''" and va = "PStr (appid c)"
        and kb = "''noncestr''" and vb = "PStr (generate_token E (draws w))"
        and kc = "''timestamp''" and vc = "PInt (py_int (clock E (ticks w)))"]
    note t = pay_sign_string_same_pairs [OF s(2) s(3) s(1), of "pay_sign_key c"]
    show ?thesis
      using s(1) t by (auto simp: pay_sign_dict_set [OF True] Let_def)
  qed
  from sd ps pg cp show ?thesis
    by blast
qed

theorem signing_order_independent_witness:
  "distinct (map fst [(''b'', PInt 2), (''a'', PInt 1)])
   \<and> distinct (map fst [(''a'', PInt 1), (''b'', PInt 2)])
   \<and> set [(''b'', PInt 2), (''a'', PInt 1)] = set [(''a'', PInt 1), (''b'', PInt 2)]
   \<and> pay_sign_dict env0 client0 world0 False False [(''b'', PInt 2), (''a'', PInt 1)]
     = (Inr ([(''b'', PInt 2), (''a'', PInt 1), (''appid'', PStr ''wx1'')], ''613d'', ''SHA1''),
        world0)
   \<and> (\<exists>psb. pay_sign_dict env0 client0 world0 False False [(''a'', PInt 1), (''b'', PInt 2)]
              = (Inr (psb, ''613d'', ''SHA1''), world0)
            \<and> set psb = set [(''b'', PInt 2), (''a'', PInt 1), (''appid'', PStr ''wx1'')])
   \<and> create_js_pay_package env0 client0 [(''b'', PInt 2), (''a'', PInt 1)]
     = create_js_pay_package env0 client0 [(''a'', PInt 1), (''b'', PInt 2)]"
proof -
  have h1: "distinct (map fst [(''b'', PInt 2), (''a'', PInt 1)])"
    by simp
  have h2: "distinct (map fst [(''a'', PInt 1), (''b'', PInt 2)])"
    by simp
  have h3: "set [(''b'', PInt 2), (''a'', PInt 1)] = set [(''a'', PInt 1), (''b'', PInt 2)]"
    by auto
  have a: "pay_sign_dict env0 client0 world0 False False [(''b'', PInt 2), (''a'', PInt 1)]
     = (Inr ([(''b'', PInt 2), (''a'', PInt 1), (''appid'', PStr ''wx1'')], ''613d'', ''SHA1''),
        world0)"
    by (simp add: pay_sign_dict_def Client_def pay_sign_string_def pay_sign_pairs_def
        pair_str_def str_int_def digits.simps hexdigest_def hex_lower_def)
  from h1 h2 h3 a show ?thesis
    using signing_order_independent
      [OF h1 h2 h3, where E = env0 and c = client0 and w = world0 and add_n = False
         and add_t = False
         and psa = "[(''b'', PInt 2), (''a'', PInt 1), (''appid'', PStr ''wx1'')]"
         and sg = "''613d''" and ty = "''SHA1''" and w' = world0]
    by blast
qed

section \<open>The guards on the keys\<close>

lemma create_js_pay_package_unset:
  assumes "\<not> is_set (pay_partner_id c) \<or> \<not> is_set (pay_partner_key c)"
  shows "create_js_pay_package E c package = Inl (AssertionError ''PAY_PARTNER_ID IS EMPTY'')
       \<or> create_js_pay_package E c package = Inl (AssertionError ''PAY_PARTNER_KEY IS EMPTY'')"
  using assms by (auto simp: create_js_pay_package_def)

lemma pay_orderquery_unset_sign_key:
  assumes "\<not> is_set (pay_sign_key c)"
  shows "pay_orderquery E c w out_trade_no = (Inl (AssertionError ''PAY SIGN KEY IS EMPTY''), c, w)"
  using assms by (simp add: pay_orderquery_def pay_sign_dict_unset)

lemma pay_delivernotify_unset_sign_key:
  assumes "\<not> is_set (pay_sign_key c)"
  shows "pay_delivernotify E c w deliver_info = (Inl (AssertionError ''PAY SIGN KEY IS EMPTY''), c, w)"
  using assms by (simp add: pay_delivernotify_def pay_sign_dict_unset)

lemma create_native_pay_url_unset_sign_key:
  assumes "\<not> is_set (pay_sign_key c)"
  shows "create_native_pay_url E c w productid = (Inl (AssertionError ''PAY SIGN KEY IS EMPTY''), w)"
  using assms by (simp add: create_native_pay_url_def pay_sign_dict_unset)

lemma create_js_pay_params_unset_sign_key:
  assumes "\<not> is_set (pay_sign_key c)"
  shows "\<exists>m. create_js_pay_params E c w package = (Inl (AssertionError m), w)"
  using assms
  by (auto simp: create_js_pay_params_def pay_sign_dict_unset create_js_pay_package_def)

text \<open>
  C5: every pay-signing operation called while the secret it needs (\<^verbatim>\<open>pay_sign_key\<close> or
  \<^verbatim>\<open>pay_partner_key\<close>) or the partner id is unset fails before any signature is computed
  and before any request is sent. \<^verbatim>\<open>_pay_sign_dict\<close> and \<^verbatim>\<open>create_js_pay_package\<close>
  assert their keys (the lemmas above), but \<^verbatim>\<open>pay_orderquery\<close> does not assert the
  partner id and the partner key it signs with: on a client that has only
  \<^verbatim>\<open>pay_sign_key\<close>, it hashes \<^verbatim>\<open>partner=None&out_trade_no=123&key=None\<close> (the
  pairs in the listed order of the dictionary) and posts the order query, where \<^verbatim>\<open>create_js_pay_package\<close> on the same client raises.
\<close>

theorem pay_orderquery_unset_partner_key:
  "orderquery_string (Client ''wx1'' ''s'' (Some ''signkey'') None None) (PStr ''123'')
     = ''partner=None&out_trade_no=123&key=None''
   \<and> fst (pay_orderquery
            \<lparr>http = (\<lambda>h r. Reply 200 (Some (JObj [(''errcode'', JInt 0), (''errmsg'', JStr ''ok'')]))),
             clock = (\<lambda>n. 1000), generate_token = g, sha1 = H, md5 = M, dumps = D\<rparr>
            ((Client ''wx1'' ''s'' (Some ''signkey'') None None)
               \<lparr>priv_token := JStr ''T'', token_expires_at := JInt 5000\<rparr>)
            w (PStr ''123''))
     = Inr (JObj [(''errcode'', JInt 0), (''errmsg'', JStr ''ok'')])
   \<and> map url (sent (snd (snd (pay_orderquery
            \<lparr>http = (\<lambda>h r. Reply 200 (Some (JObj [(''errcode'', JInt 0), (''errmsg'', JStr ''ok'')]))),
             clock = (\<lambda>n. 1000), generate_token = g, sha1 = H, md5 = M, dumps = D\<rparr>
            ((Client ''wx1'' ''s'' (Some ''signkey'') None None)
               \<lparr>priv_token := JStr ''T'', token_expires_at := JInt 5000\<rparr>)
            w (PStr ''123'')))))
     = map url (sent w) @ [''https://api.weixin.qq.com/pay/orderquery'']
   \<and> create_js_pay_package
        \<lparr>http = (\<lambda>h r. Reply 200 (Some (JObj [(''errcode'', JInt 0), (''errmsg'', JStr ''ok'')]))),
         clock = (\<lambda>n. 1000), generate_token = g, sha1 = H, md5 = M, dumps = D\<rparr>
        (Client ''wx1'' ''s'' (Some ''signkey'') None None) [(''out_trade_no'', PStr ''123'')]
     = Inl (AssertionError ''PAY_PARTNER_ID IS EMPTY'')"
proof (intro conjI)
  show "orderquery_string (Client ''wx1'' ''s'' (Some ''signkey'') None None) (PStr ''123'')
     = ''partner=None&out_trade_no=123&key=None''"
    by (simp add: orderquery_string_def Client_def pair_str_def)
qed (simp_all add: pay_orderquery_def pay_sign_dict_def Client_def time_time_def py_int_def
      post_def request_def token_def signed_body_def request_send_def check_error_def
      raise_for_status_def create_js_pay_package_def Let_def)

section \<open>The JS-pay parameters\<close>

lemma pay_sign_dict_package:
  assumes "pay_sign_dict E c w True True [(''package'', PStr pkg)] = (Inr (ps, sg, ty), w1)"
  shows "ps = [(''package'', PStr pkg), (''appid'', PStr (appid c)),
               (''noncestr'', PStr (generate_token E (draws w))),
               (''timestamp'', PInt (py_int (clock E (ticks w))))]"
    and "sg = hexdigest (sha1 E (pay_sign_string ps (pay_sign_key c)))"
    and "ty = ''SHA1''"
    and "w1 = w\<lparr>draws := Suc (draws w), ticks := Suc (ticks w)\<rparr>"
proof -
  from assms have k: "is_set (pay_sign_key c)"
    by (auto simp: pay_sign_dict_def split: if_splits)
  from assms show "ps = [(''package'', PStr pkg), (''appid'', PStr (appid c)),
               (''noncestr'', PStr (generate_token E (draws w))),
               (''timestamp'', PInt (py_int (clock E (ticks w))))]"
    and "sg = hexdigest (sha1 E (pay_sign_string ps (pay_sign_key c)))"
    and "ty = ''SHA1''"
    and "w1 = w\<lparr>draws := Suc (draws w), ticks := Suc (ticks w)\<rparr>"
    by (auto simp: pay_sign_dict_set [OF k] Let_def)
qed

text \<open>
  C8, as stated: the JS-pay parameters are the signed mapping plus a \<^verbatim>\<open>sign\<close> value and
  a \<^verbatim>\<open>signType\<close> tag. The result has no entry \<^verbatim>\<open>sign\<close>: the signature is stored
  under \<^verbatim>\<open>paySign\<close>.
\<close>

theorem create_js_pay_params_sign_key_counterexample:
  "create_js_pay_params env0 client0 world0 []
     = (Inr [(''package'', PStr ''bank_type=WX&fee_type=1&input_charset=UTF-8&partner=p&sign=6261''),
             (''paySign'', PStr ''6170''), (''signType'', PStr ''SHA1''),
             (''appId'', PStr ''wx1''), (''timeStamp'', PInt 1000), (''nonceStr'', PStr ''abc'')],
        \<lparr>sent = [], ticks = 1, draws = 1\<rparr>)
   \<and> map_of [(''package'', PStr ''bank_type=WX&fee_type=1&input_charset=UTF-8&partner=p&sign=6261''),
             (''paySign'', PStr ''6170''), (''signType'', PStr ''SHA1''),
             (''appId'', PStr ''wx1''), (''timeStamp'', PInt 1000), (''nonceStr'', PStr ''abc'')]
        ''sign'' = None"
proof -
  have b: "create_js_pay_package env0 client0 []
     = Inr ''bank_type=WX&fee_type=1&input_charset=UTF-8&partner=p&sign=6261''"
    by (simp add: create_js_pay_package_def Client_def package_params_def package_items_def
        setdefault_def package_sign_def package_string_def package_pairs_def pair_str_def
        hexdigest_def hex_lower_def upper_def upper_char_def
        urlencode_def quote_plus_def quote_char_def always_safe_def)
  have a: "pay_sign_dict env0 client0 world0 True True
             [(''package'', PStr ''bank_type=WX&fee_type=1&input_charset=UTF-8&partner=p&sign=6261'')]
     = (Inr ([(''package'', PStr ''bank_type=WX&fee_type=1&input_charset=UTF-8&partner=p&sign=6261''),
              (''appid'', PStr ''wx1''), (''noncestr'', PStr ''abc''), (''timestamp'', PInt 1000)],
             ''6170'', ''SHA1''),
        \<lparr>sent = [], ticks = 1, draws = 1\<rparr>)"
    by (simp add: pay_sign_dict_def Client_def time_time_def py_int_def pay_sign_string_def
        pay_sign_pairs_def pair_str_def str_int_def digits.simps hexdigest_def hex_lower_def)
  show ?thesis
    unfolding create_js_pay_params_def b sum.case a
    by (simp add: lower_def lower_char_def AList.delete_eq)
qed

text \<open>
  C8, amended: when the package and the signing succeed, \<^verbatim>\<open>create_js_pay_params\<close> returns
  the mapping that was signed plus the signature under \<^verbatim>\<open>paySign\<close> and the tag
  \<^verbatim>\<open>signType = "SHA1"\<close>, with \<^verbatim>\<open>appid\<close>, \<^verbatim>\<open>timestamp\<close>, \<^verbatim>\<open>noncestr\<close> renamed
  to \<^verbatim>\<open>appId\<close>, \<^verbatim>\<open>timeStamp\<close>, \<^verbatim>\<open>nonceStr\<close>: each renamed entry keeps the value that
  was signed, the old keys are absent, every other entry is as it was signed, and the
  signature is the one computed over the mapping with the old keys.
\<close>

theorem create_js_pay_params_rename:
  assumes "create_js_pay_package E c package = Inr pkg"
    and "pay_sign_dict E c w True True [(''package'', PStr pkg)] = (Inr (ps, sg, ty), w1)"
  shows "\<exists>r. create_js_pay_params E c w package = (Inr r, w1)
      \<and> distinct (map fst r)
      \<and> map_of r ''paySign'' = Some (PStr sg)
      \<and> map_of r ''signType'' = Some (PStr ''SHA1'')
      \<and> map_of r ''appId'' = map_of ps ''appid''
      \<and> map_of r ''timeStamp'' = map_of ps ''timestamp''
      \<and> map_of r ''nonceStr'' = map_of ps ''noncestr''
      \<and> map_of r ''appid'' = None
      \<and> map_of r ''timestamp'' = None
      \<and> map_of r ''noncestr'' = None
      \<and> map_of r ''sign'' = None
      \<and> (\<forall>k. k \<notin> {''paySign'', ''signType'', ''appId'', ''timeStamp'', ''nonceStr'',
                      ''appid'', ''timestamp'', ''noncestr''}
             \<longrightarrow> map_of r k = map_of ps k)
      \<and> sg = hexdigest (sha1 E (pay_sign_string ps (pay_sign_key c)))"
proof -
  note p = pay_sign_dict_package [OF assms(2)]
  have r: "create_js_pay_params E c w package =
      (Inr [(''package'', PStr pkg), (''paySign'', PStr sg), (''signType'', PStr ''SHA1''),
            (''appId'', PStr (appid c)),
            (''timeStamp'', PInt (py_int (clock E (ticks w)))),
            (''nonceStr'', PStr (generate_token E (draws w)))], w1)"
    unfolding create_js_pay_params_def assms(1) using assms(2) p(1) p(3)
    by (simp add: lower_def lower_char_def AList.delete_eq)
  show ?thesis
    unfolding r using p(1) p(2) by simp
qed

theorem create_js_pay_params_rename_witness:
  "create_js_pay_package env0 client0 []
     = Inr ''bank_type=WX&fee_type=1&input_charset=UTF-8&partner=p&sign=6261''
   \<and> pay_sign_dict env0 client0 world0 True True
         [(''package'', PStr ''bank_type=WX&fee_type=1&input_charset=UTF-8&partner=p&sign=6261'')]
     = (Inr ([(''package'', PStr ''bank_type=WX&fee_type=1&input_charset=UTF-8&partner=p&sign=6261''),
              (''appid'', PStr ''wx1''), (''noncestr'', PStr ''abc''), (''timestamp'', PInt 1000)],
             ''6170'', ''SHA1''),
        \<lparr>sent = [], ticks = 1, draws = 1\<rparr>)
   \<and> (\<exists>r. create_js_pay_params env0 client0 world0 [] = (Inr r, \<lparr>sent = [], ticks = 1, draws = 1\<rparr>)
          \<and> map_of r ''paySign'' = Some (PStr ''6170'')
          \<and> map_of r ''signType'' = Some (PStr ''SHA1'')
          \<and> map_of r ''appId'' = Some (PStr ''wx1'')
          \<and> map_of r ''timeStamp'' = Some (PInt 1000)
          \<and> map_of r ''nonceStr'' = Some (PStr ''abc'')
          \<and> map_of r ''appid'' = None
          \<and> map_of r ''package''
              = Some (PStr ''bank_type=WX&fee_type=1&input_charset=UTF-8&partner=p&sign=6261''))"
proof -
  have b: "create_js_pay_package env0 client0 []
     = Inr ''bank_type=WX&fee_type=1&input_charset=UTF-8&partner=p&sign=6261''"
    by (simp add: create_js_pay_package_def Client_def package_params_def package_items_def
        setdefault_def package_sign_def package_string_def package_pairs_def pair_str_def
        hexdigest_def hex_lower_def upper_def upper_char_def
        urlencode_def quote_plus_def quote_char_def always_safe_def)
  have a: "pay_sign_dict env0 client0 world0 True True
             [(''package'', PStr ''bank_type=WX&fee_type=1&input_charset=UTF-8&partner=p&sign=6261'')]
     = (Inr ([(''package'', PStr ''bank_type=WX&fee_type=1&input_charset=UTF-8&partner=p&sign=6261''),
              (''appid'', PStr ''wx1''), (''noncestr'', PStr ''abc''), (''timestamp'', PInt 1000)],
             ''6170'', ''SHA1''),
        \<lparr>sent = [], ticks = 1, draws = 1\<rparr>)"
    by (simp add: pay_sign_dict_def Client_def time_time_def py_int_def pay_sign_string_def
        pay_sign_pairs_def pair_str_def str_int_def digits.simps hexdigest_def hex_lower_def)
  from create_js_pay_params_rename [OF b a]
  obtain r where r: "create_js_pay_params env0 client0 world0 [] = (Inr r, \<lparr>sent = [], ticks = 1, draws = 1\<rparr>)"
      "map_of r ''paySign'' = Some (PStr ''6170'')"
      "map_of r ''signType'' = Some (PStr ''SHA1'')"
      "map_of r ''appId'' = map_of [(''package'', PStr ''bank_type=WX&fee_type=1&input_charset=UTF-8&partner=p&sign=6261''),
              (''appid'', PStr ''wx1''), (''noncestr'', PStr ''abc''), (''timestamp'', PInt 1000)] ''appid''"
      "map_of r ''timeStamp'' = map_of [(''package'', PStr ''bank_type=WX&fee_type=1&input_charset=UTF-8&partner=p&sign=6261''),
              (''appid'', PStr ''wx1''), (''noncestr'', PStr ''abc''), (''timestamp'', PInt 1000)] ''timestamp''"
      "map_of r ''nonceStr'' = map_of [(''package'', PStr ''bank_type=WX&fee_type=1&input_charset=UTF-8&partner=p&sign=6261''),
              (''appid'', PStr ''wx1''), (''noncestr'', PStr ''abc''), (''timestamp'', PInt 1000)] ''noncestr''"
      "map_of r ''appid'' = None"
      "\<forall>k. k \<notin> {''paySign'', ''signType'', ''appId'', ''timeStamp'', ''nonceStr'',
                      ''appid'', ''timestamp'', ''noncestr''}
             \<longrightarrow> map_of r k = map_of [(''package'', PStr ''bank_type=WX&fee_type=1&input_charset=UTF-8&partner=p&sign=6261''),
              (''appid'', PStr ''wx1''), (''noncestr'', PStr ''abc''), (''timestamp'', PInt 1000)] k"
    by (elim exE conjE)
  from r(8) have "''package'' \<notin> {''paySign'', ''signType'', ''appId'', ''timeStamp'', ''nonceStr'',
                      ''appid'', ''timestamp'', ''noncestr''}
             \<longrightarrow> map_of r ''package'' = map_of [(''package'', PStr ''bank_type=WX&fee_type=1&input_charset=UTF-8&partner=p&sign=6261''),
              (''appid'', PStr ''wx1''), (''noncestr'', PStr ''abc''), (''timestamp'', PInt 1000)] ''package''"
    by (rule spec)
  then have p: "map_of r ''package''
              = Some (PStr ''bank_type=WX&fee_type=1&input_charset=UTF-8&partner=p&sign=6261'')"
    by simp
  from r(4,5,6) have q: "map_of r ''appId'' = Some (PStr ''wx1'')"
    "map_of r ''timeStamp'' = Some (PInt 1000)"
    "map_of r ''nonceStr'' = Some (PStr ''abc'')"
    by simp_all
  from a b r(1,2,3,7) p q show ?thesis
    by (intro conjI exI [of _ r])
qed

section \<open>The keys of a URL-encoded string\<close>

lemma split_on_none: "c \<notin> set s \<Longrightarrow> split_on c s = [s]"
  by (induction s) auto

lemma split_on_first: "c \<notin> set s \<Longrightarrow> split_on c (s @ c # t) = s # split_on c t"
  by (induction s) auto

lemma split_on_join:
  assumes "segs \<noteq> []" and "\<forall>s\<in>set segs. c \<notin> set s"
  shows "split_on c (join [c] segs) = segs"
  using assms
proof (induction "[c]" segs rule: join.induct)
  case 1
  then show ?case by simp
next
  case (2 x)
  then show ?case by (simp add: split_on_none)
next
  case (3 x y ys)
  then show ?case by (simp add: split_on_first)
qed

lemma hex_upper_chars: "set (hex_upper c) \<subseteq> set ''0123456789ABCDEF''"
proof -
  have d: "(of_char c :: nat) div 16 < 16"
    using nat_of_char_less_256 [of c] by arith
  have m: "(of_char c :: nat) mod 16 < 16"
    by simp
  have l: "length ''0123456789ABCDEF'' = 16"
    by simp
  from d l have "''0123456789ABCDEF'' ! (of_char c div 16) \<in> set ''0123456789ABCDEF''"
    using nth_mem by metis
  moreover from m l have "''0123456789ABCDEF'' ! (of_char c mod 16) \<in> set ''0123456789ABCDEF''"
    using nth_mem by metis
  ultimately show ?thesis
    unfolding hex_upper_def by simp
qed

lemma safe_not_separator:
  "CHR ''&'' \<notin> set always_safe" "CHR ''='' \<notin> set always_safe"
  "CHR ''+'' \<notin> set always_safe" "CHR ''%'' \<notin> set always_safe"
  by (simp_all add: always_safe_def)

lemma quote_char_no_separator:
  "CHR ''&'' \<notin> set (quote_char c)" "CHR ''='' \<notin> set (quote_char c)"
proof -
  have h: "CHR ''&'' \<notin> set (hex_upper c)" "CHR ''='' \<notin> set (hex_upper c)"
    using hex_upper_chars [of c] by auto
  show "CHR ''&'' \<notin> set (quote_char c)"
    using h(1) safe_not_separator(1) by (auto simp: quote_char_def)
  show "CHR ''='' \<notin> set (quote_char c)"
    using h(2) safe_not_separator(2) by (auto simp: quote_char_def)
qed

lemma quote_plus_no_separator:
  "CHR ''&'' \<notin> set (quote_plus s)" "CHR ''='' \<notin> set (quote_plus s)"
  using quote_char_no_separator by (auto simp: quote_plus_def)

lemma quote_plus_safe_inv:
  assumes "set t \<subseteq> set always_safe" and "quote_plus k = t"
  shows "k = t"
  using assms
proof (induction k arbitrary: t)
  case Nil
  then show ?case by (simp add: quote_plus_def)
next
  case (Cons a k)
  from Cons.prems(2) have q: "quote_char a @ quote_plus k = t"
    by (simp add: quote_plus_def)
  show ?case
  proof (cases "a \<in> set always_safe")
    case True
    with q obtain t' where t: "t = a # t'" and "quote_plus k = t'"
      by (auto simp: quote_char_def)
    with Cons.IH [of t'] Cons.prems(1) show ?thesis by simp
  next
    case False
    with q have "CHR ''+'' \<in> set t \<or> CHR ''%'' \<in> set t"
      by (auto simp: quote_char_def)
    with Cons.prems(1) safe_not_separator(3,4) show ?thesis by blast
  qed
qed

lemma quote_plus_safe: "set k \<subseteq> set always_safe \<Longrightarrow> quote_plus k = k"
  by (induction k) (auto simp: quote_plus_def quote_char_def)

lemma quote_plus_eq_safe:
  assumes "set t \<subseteq> set always_safe"
  shows "quote_plus k = t \<longleftrightarrow> k = t"
  using assms quote_plus_safe_inv quote_plus_safe by blast

lemma query_keys_urlencode:
  assumes "ps \<noteq> []"
  shows "query_keys (urlencode ps) = map (\<lambda>p. quote_plus (fst p)) ps"
proof -
  let ?segs = "map (\<lambda>p. quote_plus (fst p) @ ''='' @ quote_plus (py_str (snd p))) ps"
  have "\<forall>s\<in>set ?segs. CHR ''&'' \<notin> set s"
    using quote_plus_no_separator(1) by auto
  moreover from assms have "?segs \<noteq> []" by simp
  ultimately have "split_on (CHR ''&'') (join ''&'' ?segs) = ?segs"
    by (rule split_on_join [rotated])
  moreover have "takeWhile (\<lambda>x. x \<noteq> CHR ''='') (quote_plus a @ ''='' @ b) = quote_plus a" for a b
    using quote_plus_no_separator(2) [of a] by (simp add: takeWhile_append)
  ultimately show ?thesis
    by (simp add: query_keys_def urlencode_def comp_def)
qed

section \<open>The secret pair stays out of the output\<close>

lemma setdefault_keys: "fst ` set (setdefault k v d) = insert k (fst ` set d)"
  by (auto simp: setdefault_def)

lemma package_items_keys:
  "fst ` set (package_items c package)
     = fst ` set package \<union> {''partner'', ''bank_type'', ''fee_type'', ''input_charset''}"
  unfolding package_items_def setdefault_keys AList.dom_update by blast

lemma key_is_safe: "set ''key'' \<subseteq> set always_safe" "set ''sign'' \<subseteq> set always_safe"
  by (simp_all add: always_safe_def)

lemma key_in_quoted: "''key'' \<in> quote_plus ` A \<longleftrightarrow> ''key'' \<in> A"
proof
  assume "''key'' \<in> quote_plus ` A"
  then obtain a where "a \<in> A" and "quote_plus a = ''key''"
    by auto
  then show "''key'' \<in> A"
    using quote_plus_safe_inv [OF key_is_safe(1)] by blast
next
  assume k: "''key'' \<in> A"
  have "quote_plus ''key'' = ''key''"
    using key_is_safe(1) by (rule quote_plus_safe)
  with k show "''key'' \<in> quote_plus ` A"
    by force
qed

lemma package_query_keys:
  assumes "create_js_pay_package E c package = Inr s"
  shows "query_keys s = map quote_plus (map fst (package_params c package)) @ [''sign'']"
proof -
  from assms have s: "s = urlencode (package_params c package
                           @ [(''sign'', PStr (package_sign E c package))])"
    by (auto simp: create_js_pay_package_def split: if_splits)
  have "quote_plus ''sign'' = ''sign''"
    using key_is_safe(2) by (rule quote_plus_safe)
  then show ?thesis
    unfolding s by (simp add: query_keys_urlencode comp_def)
qed

lemma package_key_pair:
  assumes "create_js_pay_package E c package = Inr s"
  shows "''key'' \<in> set (query_keys s) \<longleftrightarrow> ''key'' \<in> fst ` set package"
proof -
  have "''key'' \<in> set (query_keys s)
        \<longleftrightarrow> ''key'' \<in> quote_plus ` fst ` set (package_params c package)"
    by (simp add: package_query_keys [OF assms] image_image)
  also have "\<dots> \<longleftrightarrow> ''key'' \<in> fst ` set (package_params c package)"
    by (rule key_in_quoted)
  also have "\<dots> \<longleftrightarrow> ''key'' \<in> fst ` set package"
    by (simp add: package_params_def package_items_keys)
  finally show ?thesis .
qed

lemma native_url_keys:
  assumes "create_native_pay_url E c w productid = (Inr u, w')"
  shows "\<exists>q. u = ''weixin://wxpay/bizpayurl?'' @ q
           \<and> query_keys q = [''productid'', ''appid'', ''noncestr'', ''timestamp'', ''sign'']"
proof -
  from assms have k: "is_set (pay_sign_key c)"
    by (auto simp: create_native_pay_url_def pay_sign_dict_def split: if_splits)
  have q: "quote_plus ''productid'' = ''productid''" "quote_plus ''appid'' = ''appid''"
    "quote_plus ''noncestr'' = ''noncestr''" "quote_plus ''timestamp'' = ''timestamp''"
    "quote_plus ''sign'' = ''sign''"
    by (rule quote_plus_safe, simp add: always_safe_def)+
  from assms obtain sg where
    "u = ''weixin://wxpay/bizpayurl?'' @ urlencode
           [(''productid'', productid), (''appid'', PStr (appid c)),
            (''noncestr'', PStr (generate_token E (draws w))),
            (''timestamp'', PInt (py_int (clock E (ticks w)))), (''sign'', PStr sg)]"
    by (auto simp: create_native_pay_url_def pay_sign_dict_set [OF k] Let_def)
  then show ?thesis
    using q by (simp add: query_keys_urlencode)
qed

lemma pay_sign_dict_keeps:
  assumes "pay_sign_dict E c w add_n add_t kw = (Inr (ps, sg, ty), w')"
    and "k \<notin> {''appid'', ''noncestr'', ''timestamp''}"
  shows "map_of ps k = map_of kw k"
proof -
  from assms(1) have s: "is_set (pay_sign_key c)"
    by (auto simp: pay_sign_dict_def split: if_splits)
  from assms show ?thesis
    by (cases add_n; cases add_t)
       (auto simp: pay_sign_dict_set [OF s] Let_def AList.update_conv')
qed

lemma pay_sign_dict_other_key:
  assumes "pay_sign_dict E c w add_n add_t kw = (Inr (ps, sg, ty), w')"
    and "is_set key"
  shows "\<exists>sg'. pay_sign_dict E (c\<lparr>pay_sign_key := key\<rparr>) w add_n add_t kw = (Inr (ps, sg', ty), w')"
proof -
  from assms(1) have s: "is_set (pay_sign_key c)"
    by (auto simp: pay_sign_dict_def split: if_splits)
  from assms(2) have s': "is_set (pay_sign_key (c\<lparr>pay_sign_key := key\<rparr>))"
    by simp
  from assms(1) show ?thesis
    by (auto simp: pay_sign_dict_set [OF s] pay_sign_dict_set [OF s'] Let_def)
qed

text \<open>
  C10, as stated: the mapping returned by the SHA1 signing primitive has no \<^verbatim>\<open>appkey\<close>
  entry and the string returned by the package operation has no \<^verbatim>\<open>key\<close> pair. Both
  operations take an open set of keyword arguments and return every one of them: a caller
  who passes \<^verbatim>\<open>appkey="x"\<close> gets it back in the mapping, and a package with a field
  \<^verbatim>\<open>key\<close> has the pair \<^verbatim>\<open>key=v\<close> in the returned string.
\<close>

theorem secret_pair_counterexample:
  "pay_sign_dict env0 client0 world0 False False [(''appkey'', PStr ''x'')]
     = (Inr ([(''appkey'', PStr ''x''), (''appid'', PStr ''wx1'')], ''6170'', ''SHA1''), world0)
   \<and> map_of [(''appkey'', PStr ''x''), (''appid'', PStr ''wx1'')] ''appkey'' = Some (PStr ''x'')
   \<and> create_js_pay_package env0 client0 [(''key'', PStr ''v'')]
     = Inr ''bank_type=WX&fee_type=1&input_charset=UTF-8&key=v&partner=p&sign=6261''
   \<and> ''key'' \<in> set (query_keys
         ''bank_type=WX&fee_type=1&input_charset=UTF-8&key=v&partner=p&sign=6261'')"
proof (intro conjI)
  show "pay_sign_dict env0 client0 world0 False False [(''appkey'', PStr ''x'')]
     = (Inr ([(''appkey'', PStr ''x''), (''appid'', PStr ''wx1'')], ''6170'', ''SHA1''), world0)"
    by (simp add: pay_sign_dict_def Client_def pay_sign_string_def pay_sign_pairs_def
        pair_str_def hexdigest_def hex_lower_def)
  show "create_js_pay_package env0 client0 [(''key'', PStr ''v'')]
     = Inr ''bank_type=WX&fee_type=1&input_charset=UTF-8&key=v&partner=p&sign=6261''"
    by (simp add: create_js_pay_package_def Client_def package_params_def package_items_def
        setdefault_def package_sign_def package_string_def package_pairs_def pair_str_def
        hexdigest_def hex_lower_def upper_def upper_char_def
        urlencode_def quote_plus_def quote_char_def always_safe_def)
  show "''key'' \<in> set (query_keys
         ''bank_type=WX&fee_type=1&input_charset=UTF-8&key=v&partner=p&sign=6261'')"
    by (simp add: query_keys_def)
qed simp

text \<open>
  C10, amended: the secret pair is never put into the output of a signing operation. The
  mapping returned by the SHA1 signing primitive has the caller's own \<^verbatim>\<open>appkey\<close> entry
  if the caller passed one and none otherwise, and the mapping is the same whatever the
  secret is; the string returned by the package operation has a pair with the key
  \<^verbatim>\<open>key\<close> exactly when the caller's package has a field of that name; the native pay
  URL has neither an \<^verbatim>\<open>appkey\<close> nor a \<^verbatim>\<open>key\<close> pair.
\<close>

theorem secret_pair_not_in_output:
  "(pay_sign_dict E c w add_n add_t kw = (Inr (ps, sg, ty), w')
      \<longrightarrow> map_of ps ''appkey'' = map_of kw ''appkey''
          \<and> (is_set key \<longrightarrow>
               (\<exists>sg'. pay_sign_dict E (c\<lparr>pay_sign_key := key\<rparr>) w add_n add_t kw
                        = (Inr (ps, sg', ty), w'))))
   \<and> (create_js_pay_package E c package = Inr s
      \<longrightarrow> (''key'' \<in> set (query_keys s) \<longleftrightarrow> ''key'' \<in> fst ` set package))
   \<and> (create_native_pay_url E c w productid = (Inr u, w1)
      \<longrightarrow> (\<exists>q. u = ''weixin://wxpay/bizpayurl?'' @ q
                \<and> ''appkey'' \<notin> set (query_keys q) \<and> ''key'' \<notin> set (query_keys q)))"
proof (intro conjI impI)
  assume a: "pay_sign_dict E c w add_n add_t kw = (Inr (ps, sg, ty), w')"
  then show "map_of ps ''appkey'' = map_of kw ''appkey''"
    by (rule pay_sign_dict_keeps) simp
  assume "is_set key"
  with a show "\<exists>sg'. pay_sign_dict E (c\<lparr>pay_sign_key := key\<rparr>) w add_n add_t kw
                        = (Inr (ps, sg', ty), w')"
    by (rule pay_sign_dict_other_key)
next
  assume "create_js_pay_package E c package = Inr s"
  then show "''key'' \<in> set (query_keys s) \<longleftrightarrow> ''key'' \<in> fst ` set package"
    by (rule package_key_pair)
next
  assume "create_native_pay_url E c w productid = (Inr u, w1)"
  then obtain q where "u = ''weixin://wxpay/bizpayurl?'' @ q"
    and "query_keys q = [''productid'', ''appid'', ''noncestr'', ''timestamp'', ''sign'']"
    using native_url_keys by blast
  then show "\<exists>q. u = ''weixin://wxpay/bizpayurl?'' @ q
                \<and> ''appkey'' \<notin> set (query_keys q) \<and> ''key'' \<notin> set (query_keys q)"
    by simp
qed

theorem secret_pair_not_in_output_witness:
  "pay_sign_dict env0 client0 world0 False False [(''a'', PInt 1)]
     = (Inr ([(''a'', PInt 1), (''appid'', PStr ''wx1'')], ''613d'', ''SHA1''), world0)
   \<and> map_of [(''a'', PInt 1), (''appid'', PStr ''wx1'')] ''appkey'' = None
   \<and> is_set (Some ''other'')
   \<and> (\<exists>sg'. pay_sign_dict env0 (client0\<lparr>pay_sign_key := Some ''other''\<rparr>) world0 False False
               [(''a'', PInt 1)]
             = (Inr ([(''a'', PInt 1), (''appid'', PStr ''wx1'')], sg', ''SHA1''), world0))
   \<and> create_js_pay_package env0 client0 []
     = Inr ''bank_type=WX&fee_type=1&input_charset=UTF-8&partner=p&sign=6261''
   \<and> ''key'' \<notin> set (query_keys ''bank_type=WX&fee_type=1&input_charset=UTF-8&partner=p&sign=6261'')
   \<and> create_native_pay_url env0 client0 world0 (PStr ''123'')
     = (Inr ''weixin://wxpay/bizpayurl?productid=123&appid=wx1&noncestr=abc&timestamp=1000&sign=6170'',
        \<lparr>sent = [], ticks = 1, draws = 1\<rparr>)
   \<and> (\<exists>q. ''weixin://wxpay/bizpayurl?productid=123&appid=wx1&noncestr=abc&timestamp=1000&sign=6170''
            = ''weixin://wxpay/bizpayurl?'' @ q
          \<and> ''appkey'' \<notin> set (query_keys q) \<and> ''key'' \<notin> set (query_keys q))"
proof -
  have a: "pay_sign_dict env0 client0 world0 False False [(''a'', PInt 1)]
     = (Inr ([(''a'', PInt 1), (''appid'', PStr ''wx1'')], ''613d'', ''SHA1''), world0)"
    by (simp add: pay_sign_dict_def Client_def pay_sign_string_def pay_sign_pairs_def
        pair_str_def str_int_def digits.simps hexdigest_def hex_lower_def)
  have b: "create_js_pay_package env0 client0 []
     = Inr ''bank_type=WX&fee_type=1&input_charset=UTF-8&partner=p&sign=6261''"
    by (simp add: create_js_pay_package_def Client_def package_params_def package_items_def
        setdefault_def package_sign_def package_string_def package_pairs_def pair_str_def
        hexdigest_def hex_lower_def upper_def upper_char_def
        urlencode_def quote_plus_def quote_char_def always_safe_def)
  have c: "create_native_pay_url env0 client0 world0 (PStr ''123'')
     = (Inr ''weixin://wxpay/bizpayurl?productid=123&appid=wx1&noncestr=abc&timestamp=1000&sign=6170'',
        \<lparr>sent = [], ticks = 1, draws = 1\<rparr>)"
    by (simp add: create_native_pay_url_def pay_sign_dict_def Client_def time_time_def py_int_def
        pay_sign_string_def pay_sign_pairs_def pair_str_def str_int_def digits.simps
        hexdigest_def hex_lower_def urlencode_def quote_plus_def quote_char_def always_safe_def)
  have k: "is_set (Some ''other'')"
    by simp
  have e: "''key'' \<in> fst ` set ([] :: pydict) \<longleftrightarrow> False"
    by simp
  have m: "map_of [(''a'', PInt 1)] ''appkey'' = (None :: pyval option)"
    by simp
  note t = secret_pair_not_in_output
      [where E = env0 and c = client0 and w = world0 and add_n = False and add_t = False
         and kw = "[(''a'', PInt 1)]" and ps = "[(''a'', PInt 1), (''appid'', PStr ''wx1'')]"
         and sg = "''613d''" and ty = "''SHA1''" and w' = world0 and key = "Some ''other''"
         and package = "[]"
         and s = "''bank_type=WX&fee_type=1&input_charset=UTF-8&partner=p&sign=6261''"
         and productid = "PStr ''123''"
         and u = "''weixin://wxpay/bizpayurl?productid=123&appid=wx1&noncestr=abc&timestamp=1000&sign=6170''"
         and ?w1.0 = "\<lparr>sent = [], ticks = 1, draws = 1\<rparr>"]
  from t a b c k show ?thesis
    unfolding e m by blast
qed

section \<open>The cached token\<close>

lemma request_send_world:
  "snd (request_send E w m u ps d fs)
     = w\<lparr>sent := sent w @ [\<lparr>http_method = m, url = u, params = ps,
                               data = serialize_data E d, files = fs\<rparr>]\<rparr>"
  by (simp add: request_send_def Let_def split: http_reply.splits option.splits sum.splits)

text \<open>
  \<^verbatim>\<open>grant_token\<close> is \<^verbatim>\<open>self.get\<close> with its own \<^verbatim>\<open>params\<close>: the branch of
  \<^verbatim>\<open>request\<close> that fetches the token is not taken and the client is not touched.
\<close>

lemma grant_token_get:
  "get E c w ''https://api.weixin.qq.com/cgi-bin/token''
     \<lparr>kw_params = Some [(''grant_type'', JStr ''client_credential''),
                         (''appid'', JStr (appid c)), (''secret'', JStr (appsecret c))],
      kw_data = None, kw_files = None\<rparr>
   = (fst (grant_token E c w), c, snd (grant_token E c w))"
  by (simp add: get_def request_def grant_token_def split: prod.splits)





text \<open>
  A client starts without a token, and a call of \<^verbatim>\<open>token\<close> that returns leaves an
  integer expiry: the cache of a client that has only seen calls that returned is empty or
  holds a token with an integer expiry.
\<close>

lemma int_add_JInt: "int_add n x = Inr t \<Longrightarrow> \<exists>e. t = JInt e"
  by (cases x) auto

lemma refresh_expiry:
  assumes "refresh E c w = (Inr t, c', w')"
  shows "\<exists>e. token_expires_at c' = JInt e"
  using assms
  by (auto simp: refresh_def time_time_def Let_def split: prod.splits sum.splits
        dest: int_add_JInt)

lemma token_expiry:
  assumes "token E c w = (Inr t, c', w')"
    and "truthy (priv_token c) \<longrightarrow> (\<exists>e. token_expires_at c = JInt e)"
  shows "\<exists>e. token_expires_at c' = JInt e"
proof (cases "token E c w = refresh E c w \<or> token E c w = refresh E c (snd (time_time E w))")
  case True
  with assms(1) refresh_expiry show ?thesis
    by metis
next
  case False
  with assms show ?thesis
    by (auto simp: token_def time_time_def Let_def split: if_splits sum.splits)
qed

lemma fresh_client_has_no_token: "\<not> truthy (priv_token (Client a s k1 k2 k3))"
  by (simp add: Client_def)



section \<open>Query parameters and body of a request\<close>

text \<open>
  C9: on every call of \<^verbatim>\<open>request\<close>, when the caller passes no \<^verbatim>\<open>params\<close> the request
  that is sent has exactly the query parameters \<^verbatim>\<open>{access_token: token}\<close>, with the
  token that \<^verbatim>\<open>self.token\<close> returned (and the request is not sent when fetching the
  token fails); when the caller passes \<^verbatim>\<open>params\<close> they are sent as they are, no token is
  fetched and the client is unchanged; a body that is a dictionary is sent as its
  \<^verbatim>\<open>json.dumps\<close> text, and any other body, or none, is passed through unchanged.
\<close>

theorem request_params_and_body:
  "(kw_params kw = None \<and> token E c w = (Inr t, c1, w1)
      \<longrightarrow> sent (snd (snd (request E c w m u kw)))
            = sent w1 @ [\<lparr>http_method = m, url = u, params = [(''access_token'', t)],
                         data = serialize_data E (kw_data kw), files = kw_files kw\<rparr>]
          \<and> fst (snd (request E c w m u kw)) = c1)
   \<and> (kw_params kw = None \<and> token E c w = (Inl e, c1, w1)
      \<longrightarrow> request E c w m u kw = (Inl e, c1, w1))
   \<and> (kw_params kw = Some ps
      \<longrightarrow> sent (snd (snd (request E c w m u kw)))
            = sent w @ [\<lparr>http_method = m, url = u, params = ps,
                        data = serialize_data E (kw_data kw), files = kw_files kw\<rparr>]
          \<and> fst (snd (request E c w m u kw)) = c)
   \<and> serialize_data E (Some (BDict kvs)) = Some (BRaw (dumps E (JObj kvs)))
   \<and> serialize_data E (Some (BRaw s)) = Some (BRaw s)
   \<and> serialize_data E None = None"
proof (intro conjI impI)
  assume "kw_params kw = None \<and> token E c w = (Inr t, c1, w1)"
  then have r: "request E c w m u kw =
      (fst (request_send E w1 m u [(''access_token'', t)] (kw_data kw) (kw_files kw)), c1,
       snd (request_send E w1 m u [(''access_token'', t)] (kw_data kw) (kw_files kw)))"
    by (simp add: request_def split: prod.splits)
  show "sent (snd (snd (request E c w m u kw)))
            = sent w1 @ [\<lparr>http_method = m, url = u, params = [(''access_token'', t)],
                         data = serialize_data E (kw_data kw), files = kw_files kw\<rparr>]"
    unfolding r by (simp add: request_send_world)
  show "fst (snd (request E c w m u kw)) = c1"
    unfolding r by simp
next
  assume "kw_params kw = None \<and> token E c w = (Inl e, c1, w1)"
  then show "request E c w m u kw = (Inl e, c1, w1)"
    by (simp add: request_def)
next
  assume "kw_params kw = Some ps"
  then have r: "request E c w m u kw =
      (fst (request_send E w m u ps (kw_data kw) (kw_files kw)), c,
       snd (request_send E w m u ps (kw_data kw) (kw_files kw)))"
    by (simp add: request_def split: prod.splits)
  show "sent (snd (snd (request E c w m u kw)))
            = sent w @ [\<lparr>http_method = m, url = u, params = ps,
                        data = serialize_data E (kw_data kw), files = kw_files kw\<rparr>]"
    unfolding r by (simp add: request_send_world)
  show "fst (snd (request E c w m u kw)) = c"
    unfolding r by simp
qed (simp_all add: serialize_data_def)

theorem request_params_and_body_witness:
  "token env0 client0 world0
     = (Inr (JStr ''T1''), client0\<lparr>priv_token := JStr ''T1'', token_expires_at := JInt 8200\<rparr>,
        \<lparr>sent = [token_request client0], ticks = 1, draws = 0\<rparr>)
   \<and> sent (snd (snd (request env0 client0 world0 ''post'' ''https://api.weixin.qq.com/cgi-bin/menu/create''
                        \<lparr>kw_params = None, kw_data = Some (BDict [(''button'', JArr [])]),
                         kw_files = None\<rparr>)))
     = [token_request client0,
        \<lparr>http_method = ''post'', url = ''https://api.weixin.qq.com/cgi-bin/menu/create'',
         params = [(''access_token'', JStr ''T1'')], data = Some (BRaw ''{}''), files = None\<rparr>]
   \<and> token (env0\<lparr>http := (\<lambda>h r. NoReply)\<rparr>) client0 world0
     = (Inl ConnectionError, client0, \<lparr>sent = [token_request client0], ticks = 0, draws = 0\<rparr>)
   \<and> request (env0\<lparr>http := (\<lambda>h r. NoReply)\<rparr>) client0 world0 ''get'' ''u''
        \<lparr>kw_params = None, kw_data = None, kw_files = None\<rparr>
     = (Inl ConnectionError, client0, \<lparr>sent = [token_request client0], ticks = 0, draws = 0\<rparr>)
   \<and> sent (snd (snd (request env0 client0 world0 ''get'' ''https://api.weixin.qq.com/cgi-bin/token''
                        \<lparr>kw_params = Some [(''grant_type'', JStr ''client_credential'')],
                         kw_data = Some (BRaw ''raw''), kw_files = None\<rparr>)))
     = [\<lparr>http_method = ''get'', url = ''https://api.weixin.qq.com/cgi-bin/token'',
         params = [(''grant_type'', JStr ''client_credential'')],
         data = Some (BRaw ''raw''), files = None\<rparr>]"
proof -
  have a: "token env0 client0 world0
     = (Inr (JStr ''T1''), client0\<lparr>priv_token := JStr ''T1'', token_expires_at := JInt 8200\<rparr>,
        \<lparr>sent = [token_request client0], ticks = 1, draws = 0\<rparr>)"
    by (simp add: token_def refresh_def grant_token_def request_send_def serialize_data_def
        raise_for_status_def check_error_def time_time_def py_int_def Client_def Let_def)
  have b: "token (env0\<lparr>http := (\<lambda>h r. NoReply)\<rparr>) client0 world0
     = (Inl ConnectionError, client0, \<lparr>sent = [token_request client0], ticks = 0, draws = 0\<rparr>)"
    by (simp add: token_def refresh_def grant_token_def request_send_def serialize_data_def
        Client_def Let_def)
  note t1 = request_params_and_body
      [where E = env0 and c = client0 and w = world0 and m = "''post''"
         and u = "''https://api.weixin.qq.com/cgi-bin/menu/create''"
         and kw = "\<lparr>kw_params = None, kw_data = Some (BDict [(''button'', JArr [])]),
                   kw_files = None\<rparr>"
         and t = "JStr ''T1''"
         and ?c1.0 = "client0\<lparr>priv_token := JStr ''T1'', token_expires_at := JInt 8200\<rparr>"
         and ?w1.0 = "\<lparr>sent = [token_request client0], ticks = 1, draws = 0\<rparr>"
         and kvs = "[(''button'', JArr [])]"]
  note t2 = request_params_and_body
      [where E = "env0\<lparr>http := (\<lambda>h r. NoReply)\<rparr>" and c = client0 and w = world0
         and m = "''get''" and u = "''u''"
         and kw = "\<lparr>kw_params = None, kw_data = None, kw_files = None\<rparr>"
         and e = ConnectionError and ?c1.0 = client0
         and ?w1.0 = "\<lparr>sent = [token_request client0], ticks = 0, draws = 0\<rparr>"]
  note t3 = request_params_and_body
      [where E = env0 and c = client0 and w = world0 and m = "''get''"
         and u = "''https://api.weixin.qq.com/cgi-bin/token''"
         and kw = "\<lparr>kw_params = Some [(''grant_type'', JStr ''client_credential'')],
                   kw_data = Some (BRaw ''raw''), kw_files = None\<rparr>"
         and ps = "[(''grant_type'', JStr ''client_credential'')]" and s = "''raw''"]
  from t1 a have r1: "sent (snd (snd (request env0 client0 world0 ''post'' ''https://api.weixin.qq.com/cgi-bin/menu/create''
                        \<lparr>kw_params = None, kw_data = Some (BDict [(''button'', JArr [])]),
                         kw_files = None\<rparr>)))
     = [token_request client0,
        \<lparr>http_method = ''post'', url = ''https://api.weixin.qq.com/cgi-bin/menu/create'',
         params = [(''access_token'', JStr ''T1'')], data = Some (BRaw ''{}''), files = None\<rparr>]"
    by simp
  from t2 b have r2: "request (env0\<lparr>http := (\<lambda>h r. NoReply)\<rparr>) client0 world0 ''get'' ''u''
        \<lparr>kw_params = None, kw_data = None, kw_files = None\<rparr>
     = (Inl ConnectionError, client0, \<lparr>sent = [token_request client0], ticks = 0, draws = 0\<rparr>)"
    by simp
  from t3 have r3: "sent (snd (snd (request env0 client0 world0 ''get'' ''https://api.weixin.qq.com/cgi-bin/token''
                        \<lparr>kw_params = Some [(''grant_type'', JStr ''client_credential'')],
                         kw_data = Some (BRaw ''raw''), kw_files = None\<rparr>)))
     = [\<lparr>http_method = ''get'', url = ''https://api.weixin.qq.com/cgi-bin/token'',
         params = [(''grant_type'', JStr ''client_credential'')],
         data = Some (BRaw ''raw''), files = None\<rparr>]"
    by simp
  from a b r1 r2 r3 show ?thesis
    by (intro conjI)
qed

end
